theory Spec2Isabelle
  imports Complex_Main
begin

section \<open>Numeric conventions\<close>

text \<open>
  The kernels of \<^verbatim>\<open>src/models.py\<close> compute on numpy float64 arrays. Two models of
  their arithmetic are used. In the first a float is a real number and the
  operations are exact: the kernels are stated on it, for the properties that
  rounding does not touch (which errors are raised, signs, what is read and written).
  The second, in the section on float64 arithmetic, rounds every operation to the
  nearest float64; the properties that depend on the exact value of a sum or of a
  product are stated on it. In both, a division by zero gives what numpy gives (an
  infinity or a NaN, with a warning and no exception), and the samplers reject such
  an argument. Signed zeros are not distinguished.
\<close>

datatype error = KeyError string | ValueError | IndexError

datatype npfloat = Fin real | PInf | NInf | NaN

definition np_div :: "real \<Rightarrow> real \<Rightarrow> npfloat" where
  "np_div a b =
     (if b \<noteq> 0 then Fin (a / b)
      else if 0 < a then PInf else if a < 0 then NInf else NaN)"

fun np_mul :: "npfloat \<Rightarrow> real \<Rightarrow> npfloat" where
  "np_mul (Fin x) c = Fin (x * c)"
| "np_mul PInf c = (if 0 < c then PInf else if c < 0 then NInf else NaN)"
| "np_mul NInf c = (if 0 < c then NInf else if c < 0 then PInf else NaN)"
| "np_mul NaN c = NaN"

fun np_exp :: "npfloat \<Rightarrow> npfloat" where
  "np_exp (Fin x) = Fin (exp x)"
| "np_exp PInf = PInf"
| "np_exp NInf = Fin 0"
| "np_exp NaN = NaN"

fun np_rsub :: "real \<Rightarrow> npfloat \<Rightarrow> npfloat" where
  "np_rsub c (Fin x) = Fin (c - x)"
| "np_rsub c PInf = NInf"
| "np_rsub c NInf = PInf"
| "np_rsub c NaN = NaN"

text \<open>\<^verbatim>\<open>x.astype(int)\<close> on a float truncates towards zero.\<close>

definition astype_int :: "real \<Rightarrow> int" where
  "astype_int x = (if 0 \<le> x then \<lfloor>x\<rfloor> else \<lceil>x\<rceil>)"

text \<open>\<^verbatim>\<open>np.maximum(x, 0)\<close> on one entry.\<close>

definition maximum0 :: "real \<Rightarrow> real" where
  "maximum0 x = max x 0"

section \<open>The random source\<close>

text \<open>
  The kernels draw from numpy's process-wide generator. A call is modelled as a
  function of its arguments and of the values drawn: the record \<open>draws\<close> holds, for
  every sampler call of a kernel and every particle index, the value that the call
  returned. What numpy guarantees about a sampler is split in two: which arguments make
  it raise \<^verbatim>\<open>ValueError\<close> (\<open>binomial_accepts\<close>, \<open>poisson_accepts\<close>), and which values
  it can return on arguments it accepts (\<open>binomial_outcome\<close>, \<open>poisson_outcome\<close>).
  \<^verbatim>\<open>binomial(n, p)\<close> raises unless every \<^verbatim>\<open>n\<close> is at least 0 and every \<^verbatim>\<open>p\<close> is a
  number between 0 and 1; it returns a count between 0 and \<^verbatim>\<open>n\<close>, which is 0 when
  \<^verbatim>\<open>p = 0\<close> and \<^verbatim>\<open>n\<close> when \<^verbatim>\<open>p = 1\<close>. \<^verbatim>\<open>poisson(lam)\<close> raises unless every
  \<^verbatim>\<open>lam\<close> is a finite number that is at least 0; it returns a count that is at least
  0, and 0 when \<^verbatim>\<open>lam = 0\<close>. A standard normal draw can be any real. The limits that
  64-bit integers put on \<^verbatim>\<open>n\<close> and on \<^verbatim>\<open>lam\<close> are outside the model: beyond them the
  code raises where the model returns, so what is proved of every state that the
  model returns holds of every state that the code returns.
\<close>

record draws =
  Y_SI :: "nat \<Rightarrow> int"
  Y_IR :: "nat \<Rightarrow> int"
  Y_RS :: "nat \<Rightarrow> int"
  normal_Z :: "nat \<Rightarrow> real"
  poisson_I :: "nat \<Rightarrow> int"

definition prob_ok :: "npfloat \<Rightarrow> bool" where
  "prob_ok p = (case p of Fin r \<Rightarrow> 0 \<le> r \<and> r \<le> 1 | _ \<Rightarrow> False)"

definition binomial_accepts :: "int list \<Rightarrow> npfloat list \<Rightarrow> bool" where
  "binomial_accepts ns ps = (list_all prob_ok ps \<and> list_all (\<lambda>n. 0 \<le> n) ns)"

definition binomial_outcome :: "int \<Rightarrow> npfloat \<Rightarrow> int \<Rightarrow> bool" where
  "binomial_outcome n p k =
     (0 \<le> k \<and> k \<le> n \<and> (p = Fin 0 \<longrightarrow> k = 0) \<and> (p = Fin 1 \<longrightarrow> k = n))"

definition lam_ok :: "npfloat \<Rightarrow> bool" where
  "lam_ok l = (case l of Fin r \<Rightarrow> 0 \<le> r | _ \<Rightarrow> False)"

definition poisson_accepts :: "npfloat list \<Rightarrow> bool" where
  "poisson_accepts ls = list_all lam_ok ls"

definition poisson_outcome :: "npfloat \<Rightarrow> int \<Rightarrow> bool" where
  "poisson_outcome l k = (0 \<le> k \<and> (l = Fin 0 \<longrightarrow> k = 0))"

section \<open>Parameters\<close>

text \<open>
  \<^verbatim>\<open>param = dict(zip(theta_names, theta))\<close>: \<^verbatim>\<open>zip\<close> stops at the shorter argument, and
  a name that occurs twice keeps its last value.
\<close>

definition param_dict :: "string list \<Rightarrow> 'v list \<Rightarrow> (string \<rightharpoonup> 'v)" where
  "param_dict theta_names theta = map_of (rev (zip theta_names theta))"

definition param_get :: "(string \<rightharpoonup> 'v) \<Rightarrow> string \<Rightarrow> 'v \<Rightarrow> 'v" where
  "param_get param k d = (case param k of None \<Rightarrow> d | Some v \<Rightarrow> v)"

section \<open>The SIR and SIRS kernels\<close>

text \<open>
  A row of the ensemble \<^verbatim>\<open>y\<close>: the columns \<^verbatim>\<open>S, I, R, NI, B\<close> that
  \<^verbatim>\<open>S, I, R, NI, B = y.T\<close> unpacks. The ensemble is the list of its rows, so that an
  array with another number of columns is not an input of the model. \<^verbatim>\<open>theta\<close> is a
  one-dimensional array, as the docstrings of both kernels say: each parameter is a
  scalar shared by all particles.
\<close>

record comp =
  S_col :: real
  I_col :: real
  R_col :: real
  NI_col :: real
  B_col :: real

definition N_of :: "comp \<Rightarrow> real" where
  "N_of p = S_col p + I_col p + R_col p"

definition P_SI :: "comp \<Rightarrow> real \<Rightarrow> npfloat" where
  "P_SI p dt = np_rsub 1 (np_exp (np_mul (np_div (- B_col p * I_col p) (N_of p)) dt))"

definition P_IR :: "real \<Rightarrow> real \<Rightarrow> real" where
  "P_IR gamma dt = 1 - exp (- gamma * dt)"

definition P_RS :: "real \<Rightarrow> real \<Rightarrow> real" where
  "P_RS alpha dt = 1 - exp (- alpha * dt)"

definition clamp_row :: "comp \<Rightarrow> comp" where
  "clamp_row p =
     \<lparr>S_col = maximum0 (S_col p), I_col = maximum0 (I_col p), R_col = maximum0 (R_col p),
      NI_col = maximum0 (NI_col p), B_col = maximum0 (B_col p)\<rparr>"

definition sir_next :: "real \<Rightarrow> real \<Rightarrow> draws \<Rightarrow> comp list \<Rightarrow> nat \<Rightarrow> comp" where
  "sir_next nu_beta dt rng y j =
     (let p = y ! j in
      \<lparr>S_col = S_col p - real_of_int (Y_SI rng j),
       I_col = I_col p + real_of_int (Y_SI rng j) - real_of_int (Y_IR rng j),
       R_col = R_col p + real_of_int (Y_IR rng j),
       NI_col = real_of_int (Y_SI rng j),
       B_col = B_col p * exp (nu_beta * normal_Z rng j * dt)\<rparr>)"

definition stochastic_sir_model ::
  "comp list \<Rightarrow> real list \<Rightarrow> string list \<Rightarrow> real \<Rightarrow> draws \<Rightarrow> error + comp list" where
  "stochastic_sir_model y theta theta_names dt rng =
     (let param = param_dict theta_names theta in
      case param ''gamma'' of
        None \<Rightarrow> Inl (KeyError ''gamma'')
      | Some gamma \<Rightarrow>
          let nu_beta = param_get param ''nu_beta'' 0.1 in
          if \<not> binomial_accepts (map (\<lambda>p. astype_int (S_col p)) y) (map (\<lambda>p. P_SI p dt) y)
          then Inl ValueError
          else if \<not> binomial_accepts (map (\<lambda>p. astype_int (I_col p)) y) [Fin (P_IR gamma dt)]
          then Inl ValueError
          else Inr (map (\<lambda>j. clamp_row (sir_next nu_beta dt rng y j)) [0..<length y]))"

text \<open>The natural birth and death rate of the SIRS kernel, \<^verbatim>\<open>mu = 1 / (80 * 52)\<close>.\<close>

definition mu :: real where
  "mu = 1 / (80 * 52)"

definition sirs_next :: "real \<Rightarrow> real \<Rightarrow> draws \<Rightarrow> comp list \<Rightarrow> nat \<Rightarrow> comp" where
  "sirs_next nu_beta dt rng y j =
     (let p = y ! j in
      \<lparr>S_col = S_col p - real_of_int (Y_SI rng j) + mu * (N_of p - S_col p) * dt
                + real_of_int (Y_RS rng j),
       I_col = I_col p + real_of_int (Y_SI rng j) - real_of_int (Y_IR rng j)
                - mu * I_col p * dt,
       R_col = R_col p + real_of_int (Y_IR rng j) - mu * R_col p * dt
                - real_of_int (Y_RS rng j),
       NI_col = real_of_int (Y_SI rng j),
       B_col = B_col p * exp (nu_beta * normal_Z rng j * dt)\<rparr>)"

definition stochastic_sirs_model ::
  "comp list \<Rightarrow> real list \<Rightarrow> string list \<Rightarrow> real \<Rightarrow> draws \<Rightarrow> error + comp list" where
  "stochastic_sirs_model y theta theta_names dt rng =
     (let param = param_dict theta_names theta in
      case param ''gamma'' of
        None \<Rightarrow> Inl (KeyError ''gamma'')
      | Some gamma \<Rightarrow>
          (let alpha = param_get param ''alpha'' 0 in
           (case param ''nu_beta'' of
              None \<Rightarrow> Inl (KeyError ''nu_beta'')
            | Some nu_beta \<Rightarrow>
                if \<not> binomial_accepts (map (\<lambda>p. astype_int (S_col p)) y) (map (\<lambda>p. P_SI p dt) y)
                then Inl ValueError
                else if \<not> binomial_accepts (map (\<lambda>p. astype_int (I_col p)) y) [Fin (P_IR gamma dt)]
                then Inl ValueError
                else if \<not> binomial_accepts (map (\<lambda>p. astype_int (R_col p)) y) [Fin (P_RS alpha dt)]
                then Inl ValueError
                else Inr (map (\<lambda>j. clamp_row (sirs_next nu_beta dt rng y j)) [0..<length y]))))"

text \<open>
  The values a call can draw: every binomial draw lies in the support of its
  distribution, for the trial count and the probability the kernel passes.
\<close>

definition sir_draws_ok ::
  "comp list \<Rightarrow> real list \<Rightarrow> string list \<Rightarrow> real \<Rightarrow> draws \<Rightarrow> bool" where
  "sir_draws_ok y theta theta_names dt rng =
     (case param_dict theta_names theta ''gamma'' of
        None \<Rightarrow> True
      | Some gamma \<Rightarrow>
          list_all
            (\<lambda>j. binomial_outcome (astype_int (S_col (y ! j))) (P_SI (y ! j) dt) (Y_SI rng j)
                \<and> binomial_outcome (astype_int (I_col (y ! j))) (Fin (P_IR gamma dt)) (Y_IR rng j))
            [0..<length y])"

definition sirs_draws_ok ::
  "comp list \<Rightarrow> real list \<Rightarrow> string list \<Rightarrow> real \<Rightarrow> draws \<Rightarrow> bool" where
  "sirs_draws_ok y theta theta_names dt rng =
     (sir_draws_ok y theta theta_names dt rng \<and>
      list_all
        (\<lambda>j. binomial_outcome (astype_int (R_col (y ! j)))
               (Fin (P_RS (param_get (param_dict theta_names theta) ''alpha'' 0) dt)) (Y_RS rng j))
        [0..<length y])"

section \<open>The discrete-time Hawkes kernel\<close>

text \<open>
  A row of \<^verbatim>\<open>state\<close>: the columns that \<^verbatim>\<open>lm_I, C_I, Rt = state.T.copy()\<close> unpacks.
  \<^verbatim>\<open>theta\<close> is a two-dimensional array here, so the value that
  \<^verbatim>\<open>dict(zip(theta_names, theta))\<close> gives a name is a one-dimensional array; it meets the
  particle vectors under numpy's broadcasting rule, which accepts a vector of the
  same length or of length one and raises \<^verbatim>\<open>ValueError\<close> otherwise. The scalar default
  \<^verbatim>\<open>0.1\<close> of \<^verbatim>\<open>nu_beta\<close> is the vector \<open>[0.1]\<close>, which broadcasts the same way.
  \<^verbatim>\<open>obs\<close> is the series \<^verbatim>\<open>observed_data['obs']\<close>, \<^verbatim>\<open>t\<close> an integer and \<^verbatim>\<open>N\<close> a scalar. The
  result is a \<^verbatim>\<open>DataFrame\<close>: its column labels and its rows; pandas raises
  \<^verbatim>\<open>ValueError\<close> when the number of labels is not the number of columns.
\<close>

record hawkes =
  lm_I :: real
  C_I :: real
  Rt :: real

record dataframe =
  columns :: "string list"
  rows :: "hawkes list"

definition broadcast_to :: "nat \<Rightarrow> real list \<Rightarrow> error + real list" where
  "broadcast_to n v =
     (if length v = n then Inr v
      else if length v = 1 then Inr (replicate n (v ! 0))
      else Inl ValueError)"

text \<open>\<^verbatim>\<open>lm_I.fill(0)\<close>, on the copy.\<close>

definition fill_lm :: "hawkes list \<Rightarrow> hawkes list" where
  "fill_lm c = map (\<lambda>p. p\<lparr>lm_I := 0\<rparr>) c"

text \<open>\<^verbatim>\<open>Rt *= np.exp(nu_beta * np.random.normal(0, 1, size=Rt.shape))\<close>, on the copy.\<close>

definition walk_Rt :: "real list \<Rightarrow> draws \<Rightarrow> hawkes list \<Rightarrow> error + hawkes list" where
  "walk_Rt nu_beta rng c =
     (case broadcast_to (length c) nu_beta of
        Inl e \<Rightarrow> Inl e
      | Inr nb \<Rightarrow>
          Inr (map (\<lambda>j. (c ! j)\<lparr>Rt := Rt (c ! j) * exp (nb ! j * normal_Z rng j)\<rparr>)
                 [0..<length c]))"

text \<open>\<^verbatim>\<open>kernel_values = omega_I * (1 - omega_I) ** (t - ti - 1)\<close>.\<close>

definition kernel_values :: "real list \<Rightarrow> int \<Rightarrow> nat \<Rightarrow> real list" where
  "kernel_values omega_I t ti = map (\<lambda>w. w * (1 - w) ^ nat (t - int ti - 1)) omega_I"

text \<open>\<^verbatim>\<open>lm_I += v\<close>, on the copy.\<close>

definition add_lm :: "real list \<Rightarrow> hawkes list \<Rightarrow> error + hawkes list" where
  "add_lm v c =
     (case broadcast_to (length c) v of
        Inl e \<Rightarrow> Inl e
      | Inr inc \<Rightarrow> Inr (map (\<lambda>j. (c ! j)\<lparr>lm_I := lm_I (c ! j) + inc ! j\<rparr>) [0..<length c]))"

text \<open>
  The loop \<^verbatim>\<open>for ti in range(t)\<close>, over the steps that remain. \<^verbatim>\<open>obs.iloc[ti]\<close> raises
  \<^verbatim>\<open>IndexError\<close> beyond the end of the series.
\<close>

fun convolve ::
  "real list \<Rightarrow> real list \<Rightarrow> int \<Rightarrow> nat list \<Rightarrow> hawkes list \<Rightarrow> error + hawkes list" where
  "convolve omega_I obs t [] c = Inr c"
| "convolve omega_I obs t (ti # tis) c =
     (if length obs \<le> ti then Inl IndexError
      else (case add_lm (map (\<lambda>k. obs ! ti * k) (kernel_values omega_I t ti)) c of
              Inl e \<Rightarrow> Inl e
            | Inr c' \<Rightarrow> convolve omega_I obs t tis c'))"

text \<open>The mean \<^verbatim>\<open>(1 - C_I / N) * Rt * lm_I\<close> that line 179 passes to the Poisson sampler.\<close>

definition poisson_lam :: "real \<Rightarrow> hawkes \<Rightarrow> npfloat" where
  "poisson_lam N p = np_mul (np_mul (np_rsub 1 (np_div (C_I p) N)) (Rt p)) (lm_I p)"

text \<open>\<^verbatim>\<open>C_I += lm_I\<close>, on the copy, with the array of draws that \<^verbatim>\<open>lm_I\<close> now names.\<close>

definition add_C :: "real list \<Rightarrow> hawkes list \<Rightarrow> hawkes list" where
  "add_C lm_new c = map (\<lambda>j. (c ! j)\<lparr>C_I := C_I (c ! j) + lm_new ! j\<rparr>) [0..<length c]"

text \<open>\<^verbatim>\<open>np.column_stack((lm_I, C_I, Rt))\<close>.\<close>

definition column_stack :: "real list \<Rightarrow> hawkes list \<Rightarrow> hawkes list" where
  "column_stack lm_new c =
     map (\<lambda>j. \<lparr>lm_I = lm_new ! j, C_I = C_I (c ! j), Rt = Rt (c ! j)\<rparr>) [0..<length c]"

text \<open>
  Lines 165 to 177: the writable copy of the state as it stands when the Poisson
  sampler is called, \<^verbatim>\<open>lm_I\<close> holding the accumulated intensity.
\<close>

definition dthp_intensity ::
  "hawkes list \<Rightarrow> real list list \<Rightarrow> string list \<Rightarrow> real list \<Rightarrow> int \<Rightarrow> draws
     \<Rightarrow> error + hawkes list" where
  "dthp_intensity state theta theta_names obs t rng =
     (let param = param_dict theta_names theta in
      case param ''omega_I'' of
        None \<Rightarrow> Inl (KeyError ''omega_I'')
      | Some omega_I \<Rightarrow>
          (let nu_beta = param_get param ''nu_beta'' [0.1] in
           (case walk_Rt nu_beta rng (fill_lm state) of
              Inl e \<Rightarrow> Inl e
            | Inr c \<Rightarrow> convolve omega_I obs t [0..<nat t] c)))"

text \<open>Lines 179 to 186, and the kernel.\<close>

definition dthp_model ::
  "hawkes list \<Rightarrow> real list list \<Rightarrow> string list \<Rightarrow> string list \<Rightarrow> real list \<Rightarrow> int \<Rightarrow> real
     \<Rightarrow> draws \<Rightarrow> error + dataframe" where
  "dthp_model state theta state_names theta_names obs t N rng =
     (case dthp_intensity state theta theta_names obs t rng of
        Inl e \<Rightarrow> Inl e
      | Inr c \<Rightarrow>
          if \<not> poisson_accepts (map (poisson_lam N) c) then Inl ValueError
          else (let lm_new = map (\<lambda>j. real_of_int (poisson_I rng j)) [0..<length c];
                    updated_state = column_stack lm_new (add_C lm_new c)
                in if length state_names \<noteq> 3 then Inl ValueError
                   else Inr \<lparr>columns = state_names, rows = updated_state\<rparr>))"

text \<open>Every Poisson draw lies in the support of its distribution.\<close>

definition dthp_draws_ok ::
  "hawkes list \<Rightarrow> real list list \<Rightarrow> string list \<Rightarrow> real list \<Rightarrow> int \<Rightarrow> real \<Rightarrow> draws
     \<Rightarrow> bool" where
  "dthp_draws_ok state theta theta_names obs t N rng =
     (case dthp_intensity state theta theta_names obs t rng of
        Inl e \<Rightarrow> True
      | Inr c \<Rightarrow>
          list_all (\<lambda>j. poisson_outcome (poisson_lam N (c ! j)) (poisson_I rng j))
            [0..<length c])"

definition lam_negative :: "npfloat \<Rightarrow> bool" where
  "lam_negative l = (case l of Fin r \<Rightarrow> r < 0 | NInf \<Rightarrow> True | _ \<Rightarrow> False)"

section \<open>The kernels on a store of arrays\<close>

text \<open>
  Whether a kernel changes an array of its caller depends on which arrays its names
  share. The store holds the arrays by address: the ensembles, the observed series,
  and \<open>top\<close>, the first address that is not yet in use. An allocation takes the
  address \<open>top\<close>; an in-place operation of numpy (\<^verbatim>\<open>fill\<close>, \<^verbatim>\<open>*=\<close>, \<^verbatim>\<open>+=\<close>) writes
  the array at the address that its left-hand side names. A call returns the store it
  leaves behind, also when it raises.
\<close>

record 'a store =
  arrays :: "nat \<Rightarrow> 'a list"
  series :: "nat \<Rightarrow> real list"
  top :: nat

definition alloc :: "'a list \<Rightarrow> 'a store \<Rightarrow> nat \<times> 'a store" where
  "alloc xs h = (top h, h\<lparr>arrays := (arrays h)(top h := xs), top := Suc (top h)\<rparr>)"

definition write_array :: "nat \<Rightarrow> 'a list \<Rightarrow> 'a store \<Rightarrow> 'a store" where
  "write_array a xs h = h\<lparr>arrays := (arrays h)(a := xs)\<rparr>"

text \<open>
  In \<^verbatim>\<open>stochastic_sir_model\<close> and \<^verbatim>\<open>stochastic_sirs_model\<close> the names
  \<^verbatim>\<open>S, I, R, NI, B\<close> are views of \<^verbatim>\<open>y\<close>, and they are only read: every statement of
  lines 41 to 68 and 104 to 137 binds a new name to the value of an expression, and
  \<^verbatim>\<open>astype\<close>, \<^verbatim>\<open>np.column_stack\<close> and \<^verbatim>\<open>np.maximum\<close> return new arrays. The only
  effect on the store is the allocation of the result.
\<close>

definition stochastic_sir_model_st ::
  "comp store \<Rightarrow> nat \<Rightarrow> real list \<Rightarrow> string list \<Rightarrow> real \<Rightarrow> draws
     \<Rightarrow> comp store \<times> (error + nat)" where
  "stochastic_sir_model_st h y_ref theta theta_names dt rng =
     (case stochastic_sir_model (arrays h y_ref) theta theta_names dt rng of
        Inl e \<Rightarrow> (h, Inl e)
      | Inr y_next \<Rightarrow> (let (r, h') = alloc y_next h in (h', Inr r)))"

definition stochastic_sirs_model_st ::
  "comp store \<Rightarrow> nat \<Rightarrow> real list \<Rightarrow> string list \<Rightarrow> real \<Rightarrow> draws
     \<Rightarrow> comp store \<times> (error + nat)" where
  "stochastic_sirs_model_st h y_ref theta theta_names dt rng =
     (case stochastic_sirs_model (arrays h y_ref) theta theta_names dt rng of
        Inl e \<Rightarrow> (h, Inl e)
      | Inr y_next \<Rightarrow> (let (r, h') = alloc y_next h in (h', Inr r)))"

text \<open>
  \<^verbatim>\<open>dthp_model\<close> works in place: \<^verbatim>\<open>state.T.copy()\<close> allocates an array, at the
  address \<open>c\<close> below, \<^verbatim>\<open>lm_I, C_I, Rt\<close> are views of its rows, and lines 173, 174, 177 and
  182 write through them. Line 179 binds \<^verbatim>\<open>lm_I\<close> to the new array of draws, which
  no other name shares. The observed series is read at \<open>obs_ref\<close>. The result is the
  pair of the column labels and the address of the stacked array.
\<close>

fun convolve_st ::
  "real list \<Rightarrow> nat \<Rightarrow> int \<Rightarrow> nat list \<Rightarrow> nat \<Rightarrow> hawkes store
     \<Rightarrow> hawkes store \<times> error option" where
  "convolve_st omega_I obs_ref t [] c h = (h, None)"
| "convolve_st omega_I obs_ref t (ti # tis) c h =
     (if length (series h obs_ref) \<le> ti then (h, Some IndexError)
      else (case add_lm (map (\<lambda>k. series h obs_ref ! ti * k) (kernel_values omega_I t ti))
                   (arrays h c) of
              Inl e \<Rightarrow> (h, Some e)
            | Inr c' \<Rightarrow> convolve_st omega_I obs_ref t tis c (write_array c c' h)))"

definition dthp_model_st ::
  "hawkes store \<Rightarrow> nat \<Rightarrow> real list list \<Rightarrow> string list \<Rightarrow> string list \<Rightarrow> nat \<Rightarrow> int
     \<Rightarrow> real \<Rightarrow> draws \<Rightarrow> hawkes store \<times> (error + string list \<times> nat)" where
  "dthp_model_st h state_ref theta state_names theta_names obs_ref t N rng =
     (let (c, h1) = alloc (arrays h state_ref) h;
          param = param_dict theta_names theta
      in case param ''omega_I'' of
           None \<Rightarrow> (h1, Inl (KeyError ''omega_I''))
         | Some omega_I \<Rightarrow>
            (let nu_beta = param_get param ''nu_beta'' [0.1];
                 h2 = write_array c (fill_lm (arrays h1 c)) h1
             in case walk_Rt nu_beta rng (arrays h2 c) of
                  Inl e \<Rightarrow> (h2, Inl e)
                | Inr c' \<Rightarrow>
                   (case convolve_st omega_I obs_ref t [0..<nat t] c (write_array c c' h2) of
                      (h4, Some e) \<Rightarrow> (h4, Inl e)
                    | (h4, None) \<Rightarrow>
                       if \<not> poisson_accepts (map (poisson_lam N) (arrays h4 c))
                       then (h4, Inl ValueError)
                       else (let lm_new = map (\<lambda>j. real_of_int (poisson_I rng j))
                                            [0..<length (arrays h4 c)];
                                 h5 = write_array c (add_C lm_new (arrays h4 c)) h4;
                                 (r, h6) = alloc (column_stack lm_new (arrays h5 c)) h5
                             in if length state_names \<noteq> 3 then (h6, Inl ValueError)
                                else (h6, Inr (state_names, r))))))"

text \<open>What a call leaves of the store it was given.\<close>

definition frame_kept :: "'a store \<Rightarrow> 'a store \<Rightarrow> bool" where
  "frame_kept h h' =
     (top h \<le> top h' \<and> series h' = series h \<and>
      list_all (\<lambda>a. arrays h' a = arrays h a) [0..<top h])"

section \<open>Predicates of the properties\<close>

definition comp_nonneg :: "comp \<Rightarrow> bool" where
  "comp_nonneg p =
     (0 \<le> S_col p \<and> 0 \<le> I_col p \<and> 0 \<le> R_col p \<and> 0 \<le> NI_col p \<and> 0 \<le> B_col p)"

definition hawkes_nonneg :: "hawkes \<Rightarrow> bool" where
  "hawkes_nonneg p = (0 \<le> lm_I p \<and> 0 \<le> C_I p \<and> 0 \<le> Rt p)"

text \<open>Draws that are the same for every particle, for the examples.\<close>

definition draws_of :: "int \<Rightarrow> int \<Rightarrow> int \<Rightarrow> real \<Rightarrow> int \<Rightarrow> draws" where
  "draws_of si ir rs z k =
     \<lparr>Y_SI = (\<lambda>j. si), Y_IR = (\<lambda>j. ir), Y_RS = (\<lambda>j. rs), normal_Z = (\<lambda>j. z),
      poisson_I = (\<lambda>j. k)\<rparr>"


section \<open>Float64 arithmetic\<close>

text \<open>
  IEEE 754 binary64 with rounding to nearest, ties to even. A finite float is the
  real number it stands for. \<open>ulp_exp x\<close> is the exponent of the last binary place
  that a float near \<open>x\<close> has: 52 places below the leading one, and not below
  \<open>2 powi - 1074\<close>, the spacing of the subnormal floats. \<open>fl64 x\<close> rounds \<open>x\<close> to a
  multiple of that place, and gives an infinity when the result is beyond the
  largest finite float. An operation on two finite floats is the rounded exact
  result; the rules for infinities and NaN are those of the standard.
\<close>

definition round_even :: "real \<Rightarrow> int" where
  "round_even y =
     (let f = \<lfloor>y\<rfloor>; d = y - of_int f
      in if d < 1 / 2 then f else if 1 / 2 < d then f + 1 else if even f then f else f + 1)"

definition ulp_exp :: "real \<Rightarrow> int" where
  "ulp_exp x = max (\<lfloor>log 2 \<bar>x\<bar>\<rfloor> - 52) (- 1074)"

definition fl64 :: "real \<Rightarrow> npfloat" where
  "fl64 x =
     (if x = 0 then Fin 0
      else let r = of_int (round_even (x / 2 powi ulp_exp x)) * 2 powi ulp_exp x
           in if 2 ^ 1024 \<le> \<bar>r\<bar> then (if 0 < x then PInf else NInf) else Fin r)"

fun f_neg :: "npfloat \<Rightarrow> npfloat" where
  "f_neg (Fin x) = Fin (- x)"
| "f_neg PInf = NInf"
| "f_neg NInf = PInf"
| "f_neg NaN = NaN"

fun f_add :: "npfloat \<Rightarrow> npfloat \<Rightarrow> npfloat" where
  "f_add (Fin x) (Fin y) = fl64 (x + y)"
| "f_add NaN b = NaN"
| "f_add a NaN = NaN"
| "f_add PInf NInf = NaN"
| "f_add NInf PInf = NaN"
| "f_add PInf b = PInf"
| "f_add NInf b = NInf"
| "f_add a PInf = PInf"
| "f_add a NInf = NInf"

definition f_sub :: "npfloat \<Rightarrow> npfloat \<Rightarrow> npfloat" where
  "f_sub a b = f_add a (f_neg b)"

fun f_mul :: "npfloat \<Rightarrow> npfloat \<Rightarrow> npfloat" where
  "f_mul (Fin x) (Fin y) = fl64 (x * y)"
| "f_mul NaN b = NaN"
| "f_mul a NaN = NaN"
| "f_mul PInf (Fin y) = (if 0 < y then PInf else if y < 0 then NInf else NaN)"
| "f_mul NInf (Fin y) = (if 0 < y then NInf else if y < 0 then PInf else NaN)"
| "f_mul (Fin x) PInf = (if 0 < x then PInf else if x < 0 then NInf else NaN)"
| "f_mul (Fin x) NInf = (if 0 < x then NInf else if x < 0 then PInf else NaN)"
| "f_mul PInf PInf = PInf"
| "f_mul PInf NInf = NInf"
| "f_mul NInf PInf = NInf"
| "f_mul NInf NInf = PInf"

fun f_div :: "npfloat \<Rightarrow> npfloat \<Rightarrow> npfloat" where
  "f_div (Fin x) (Fin y) =
     (if y \<noteq> 0 then fl64 (x / y)
      else if 0 < x then PInf else if x < 0 then NInf else NaN)"
| "f_div NaN b = NaN"
| "f_div a NaN = NaN"
| "f_div PInf (Fin y) = (if 0 \<le> y then PInf else NInf)"
| "f_div NInf (Fin y) = (if 0 \<le> y then NInf else PInf)"
| "f_div (Fin x) b = Fin 0"
| "f_div a b = NaN"

text \<open>\<^verbatim>\<open>np.maximum(x, 0)\<close> on one float: a NaN stays a NaN.\<close>

fun f_maximum0 :: "npfloat \<Rightarrow> npfloat" where
  "f_maximum0 (Fin x) = Fin (max x 0)"
| "f_maximum0 PInf = PInf"
| "f_maximum0 NInf = Fin 0"
| "f_maximum0 NaN = NaN"

text \<open>
  The draws are int64 arrays; an operation between a float64 array and an int64 array
  converts the integers to float64 first.
\<close>

definition of_int64 :: "int \<Rightarrow> npfloat" where
  "of_int64 k = fl64 (real_of_int k)"

text \<open>
  Lines 57 to 59 and 71 of \<^verbatim>\<open>stochastic_sir_model\<close> in float64: the columns \<^verbatim>\<open>S\<close>,
  \<^verbatim>\<open>I\<close>, \<^verbatim>\<open>R\<close> of the row that the kernel returns for a particle, from the row it
  was given and its two binomial draws. (Whether the kernel returns, and which draws
  are possible, depends on the probabilities, hence on \<^verbatim>\<open>np.exp\<close>; these three
  columns do not.)
\<close>

record counts_f64 =
  S_next :: npfloat
  I_next :: npfloat
  R_next :: npfloat

definition sir_counts_f64 :: "comp \<Rightarrow> int \<Rightarrow> int \<Rightarrow> counts_f64" where
  "sir_counts_f64 p ysi yir =
     \<lparr>S_next = f_maximum0 (f_sub (Fin (S_col p)) (of_int64 ysi)),
      I_next = f_maximum0 (f_sub (f_add (Fin (I_col p)) (of_int64 ysi)) (of_int64 yir)),
      R_next = f_maximum0 (f_add (Fin (R_col p)) (of_int64 yir))\<rparr>"





text \<open>
  Line 179 of \<^verbatim>\<open>dthp_model\<close> in float64: the mean \<^verbatim>\<open>(1 - C_I / N) * Rt * lm_I\<close> that
  the Poisson sampler is given for a particle, from the values that the writable copy
  holds for it when the sampler is called.
\<close>

definition poisson_lam_f64 :: "real \<Rightarrow> hawkes \<Rightarrow> npfloat" where
  "poisson_lam_f64 N p =
     f_mul (f_mul (f_sub (Fin 1) (f_div (Fin (C_I p)) (Fin N))) (Fin (Rt p))) (Fin (lm_I p))"

text \<open>
  Lines 179 to 186 in float64, from the copy \<open>c\<close> as it stands at line 179: the
  sampler raises unless every mean is a number that is at least 0; the draws replace
  \<^verbatim>\<open>lm_I\<close> and are added to \<^verbatim>\<open>C_I\<close>; the three columns are stacked and labelled.
\<close>

definition dthp_draw_f64 ::
  "real \<Rightarrow> hawkes list \<Rightarrow> string list \<Rightarrow> draws
     \<Rightarrow> error + string list \<times> (npfloat \<times> npfloat \<times> npfloat) list" where
  "dthp_draw_f64 N c state_names rng =
     (if \<not> poisson_accepts (map (poisson_lam_f64 N) c) then Inl ValueError
      else (let updated_state =
                  map (\<lambda>j. (of_int64 (poisson_I rng j),
                            f_add (Fin (C_I (c ! j))) (of_int64 (poisson_I rng j)),
                            Fin (Rt (c ! j))))
                    [0..<length c]
            in if length state_names \<noteq> 3 then Inl ValueError
               else Inr (state_names, updated_state)))"

definition nonpos_float :: "npfloat \<Rightarrow> bool" where
  "nonpos_float a = (case a of Fin r \<Rightarrow> r \<le> 0 | NInf \<Rightarrow> True | _ \<Rightarrow> False)"

section \<open>Auxiliary facts\<close>

subsection \<open>Parameters and the compartmental kernels\<close>

lemma param_dict_absent: "k \<notin> set theta_names \<Longrightarrow> param_dict theta_names theta k = None"
  by (auto simp: param_dict_def map_of_eq_None_iff dest: set_zip_leftD)

lemma param_dict_take:
  "param_dict (take (min (length theta_names) (length theta)) theta_names)
              (take (min (length theta_names) (length theta)) theta) = param_dict theta_names theta"
  by (simp add: param_dict_def take_zip [symmetric])

lemma sir_no_gamma:
  "param_dict theta_names theta ''gamma'' = None \<Longrightarrow>
   stochastic_sir_model y theta theta_names dt rng = Inl (KeyError ''gamma'')"
  by (simp add: stochastic_sir_model_def)

lemma sirs_no_gamma:
  "param_dict theta_names theta ''gamma'' = None \<Longrightarrow>
   stochastic_sirs_model y theta theta_names dt rng = Inl (KeyError ''gamma'')"
  by (simp add: stochastic_sirs_model_def)

lemma sirs_no_nu_beta:
  "param_dict theta_names theta ''nu_beta'' = None \<Longrightarrow>
   stochastic_sirs_model y theta theta_names dt rng
     = Inl (KeyError (if param_dict theta_names theta ''gamma'' = None then ''gamma'' else ''nu_beta''))"
  by (simp add: stochastic_sirs_model_def Let_def split: option.splits)

lemma dthp_no_omega:
  "param_dict theta_names theta ''omega_I'' = None \<Longrightarrow>
   dthp_model state theta state_names theta_names obs t N rng = Inl (KeyError ''omega_I'')"
  by (simp add: dthp_model_def dthp_intensity_def)


lemma sir_returns:
  assumes "stochastic_sir_model y theta theta_names dt rng = Inr y_next"
  shows "\<exists>gamma. param_dict theta_names theta ''gamma'' = Some gamma \<and>
           y_next = map (\<lambda>j. clamp_row (sir_next (param_get (param_dict theta_names theta) ''nu_beta'' 0.1) dt rng y j)) [0..<length y]"
  using assms by (auto simp: stochastic_sir_model_def Let_def split: option.splits if_splits)

lemma sirs_returns:
  assumes "stochastic_sirs_model y theta theta_names dt rng = Inr y_next"
  shows "\<exists>gamma nu_beta. param_dict theta_names theta ''gamma'' = Some gamma \<and>
           param_dict theta_names theta ''nu_beta'' = Some nu_beta \<and>
           y_next = map (\<lambda>j. clamp_row (sirs_next nu_beta dt rng y j)) [0..<length y]"
  using assms by (auto simp: stochastic_sirs_model_def Let_def split: option.splits if_splits)

lemma clamp_row_nonneg:
  "0 \<le> S_col (clamp_row p) \<and> 0 \<le> I_col (clamp_row p) \<and> 0 \<le> R_col (clamp_row p) \<and>
   0 \<le> NI_col (clamp_row p) \<and> 0 \<le> B_col (clamp_row p)"
  by (simp add: clamp_row_def maximum0_def)

subsection \<open>The Hawkes kernel\<close>

lemma walk_Rt_returns:
  assumes "walk_Rt nu_beta rng c = Inr c'"
  shows "length c' = length c"
    and "j < length c \<Longrightarrow> lm_I (c' ! j) = lm_I (c ! j)"
    and "j < length c \<Longrightarrow> C_I (c' ! j) = C_I (c ! j)"
    and "j < length c \<Longrightarrow> \<exists>x. Rt (c' ! j) = Rt (c ! j) * exp x"
  using assms by (auto simp: walk_Rt_def split: sum.splits)

lemma add_lm_returns:
  assumes "add_lm v c = Inr c'"
  shows "length c' = length c"
    and "j < length c \<Longrightarrow> C_I (c' ! j) = C_I (c ! j)"
    and "j < length c \<Longrightarrow> Rt (c' ! j) = Rt (c ! j)"
  using assms by (auto simp: add_lm_def split: sum.splits)

lemma add_lm_zero:
  assumes "add_lm v c = Inr c'" and "set v \<subseteq> {0}" and "j < length c"
  shows "lm_I (c' ! j) = lm_I (c ! j)"
proof -
  from assms(1) obtain inc where b: "broadcast_to (length c) v = Inr inc"
    and c': "c' = map (\<lambda>j. (c ! j)\<lparr>lm_I := lm_I (c ! j) + inc ! j\<rparr>) [0..<length c]"
    by (auto simp: add_lm_def split: sum.splits)
  have v0: "v ! 0 = 0" if "length v = 1"
  proof -
    from that have "v ! 0 \<in> set v" by (intro nth_mem) simp
    with assms(2) show ?thesis by auto
  qed
  from b assms(2) v0 have "length inc = length c" and "set inc \<subseteq> {0}"
    by (auto simp: broadcast_to_def split: if_splits)
  then have "inc ! j = 0" using assms(3) by (metis nth_mem singletonD subsetD)
  then show ?thesis using assms(3) by (simp add: c')
qed

lemma convolve_returns:
  assumes "convolve omega_I obs t tis c = Inr c'"
  shows "length c' = length c \<and>
         (\<forall>j<length c. C_I (c' ! j) = C_I (c ! j) \<and> Rt (c' ! j) = Rt (c ! j))"
  using assms
proof (induction tis arbitrary: c)
  case Nil
  then show ?case by simp
next
  case (Cons ti tis)
  from Cons.prems obtain c1 where
    step: "add_lm (map (\<lambda>k. obs ! ti * k) (kernel_values omega_I t ti)) c = Inr c1" and
    rest: "convolve omega_I obs t tis c1 = Inr c'"
    by (auto split: if_splits sum.splits)
  from Cons.IH [OF rest] add_lm_returns [OF step] show ?case by simp
qed

lemma convolve_zero_history:
  assumes "convolve omega_I obs t tis c = Inr c'"
    and "\<forall>ti\<in>set tis. obs ! ti = 0" and "j < length c"
  shows "lm_I (c' ! j) = lm_I (c ! j)"
  using assms
proof (induction tis arbitrary: c)
  case Nil
  then show ?case by simp
next
  case (Cons ti tis)
  from Cons.prems(1) obtain c1 where
    step: "add_lm (map (\<lambda>k. obs ! ti * k) (kernel_values omega_I t ti)) c = Inr c1" and
    rest: "convolve omega_I obs t tis c1 = Inr c'"
    by (auto split: if_splits sum.splits)
  from Cons.prems(2) have z: "obs ! ti = 0" and zs: "\<forall>ti\<in>set tis. obs ! ti = 0" by simp_all
  have len: "length c1 = length c" using add_lm_returns(1) [OF step] .
  have "lm_I (c1 ! j) = lm_I (c ! j)"
    using step _ Cons.prems(3) by (rule add_lm_zero) (auto simp: z)
  moreover have "lm_I (c' ! j) = lm_I (c1 ! j)"
    using rest zs Cons.prems(3) by (intro Cons.IH) (simp_all add: len)
  ultimately show ?case by simp
qed

lemma convolve_needs_history:
  assumes "convolve omega_I obs t tis c = Inr c'"
  shows "\<forall>ti\<in>set tis. ti < length obs"
  using assms
  by (induction tis arbitrary: c) (auto split: if_splits sum.splits)

lemma intensity_returns:
  assumes "dthp_intensity state theta theta_names obs t rng = Inr c"
  shows "length c = length state"
    and "j < length state \<Longrightarrow> C_I (c ! j) = C_I (state ! j)"
    and "j < length state \<Longrightarrow> \<exists>x. Rt (c ! j) = Rt (state ! j) * exp x"
    and "nat t \<le> length obs"
proof -
  from assms obtain omega_I c1 where
    w: "walk_Rt (param_get (param_dict theta_names theta) ''nu_beta'' [0.1]) rng (fill_lm state) = Inr c1"
    and cv: "convolve omega_I obs t [0..<nat t] c1 = Inr c"
    by (auto simp: dthp_intensity_def Let_def split: option.splits sum.splits)
  have l1: "length c1 = length state"
    using walk_Rt_returns(1) [OF w] by (simp add: fill_lm_def)
  from convolve_returns [OF cv] have l2: "length c = length c1"
    and keep: "\<And>j. j < length c1 \<Longrightarrow> C_I (c ! j) = C_I (c1 ! j) \<and> Rt (c ! j) = Rt (c1 ! j)"
    by simp_all
  show "length c = length state" using l1 l2 by simp
  show "C_I (c ! j) = C_I (state ! j)" if "j < length state"
    using that keep [of j] walk_Rt_returns(3) [OF w, of j] l1 by (simp add: fill_lm_def)
  show "\<exists>x. Rt (c ! j) = Rt (state ! j) * exp x" if "j < length state"
    using that keep [of j] walk_Rt_returns(4) [OF w, of j] l1 by (simp add: fill_lm_def)
  show "nat t \<le> length obs"
    using convolve_needs_history [OF cv]
    by (cases "nat t") (auto simp: less_Suc_eq_le)
qed

lemma intensity_zero_history:
  assumes "dthp_intensity state theta theta_names obs t rng = Inr c"
    and "set (take (nat t) obs) \<subseteq> {0}" and "j < length state"
  shows "lm_I (c ! j) = 0"
proof -
  from assms(1) obtain omega_I c1 where
    w: "walk_Rt (param_get (param_dict theta_names theta) ''nu_beta'' [0.1]) rng (fill_lm state) = Inr c1"
    and cv: "convolve omega_I obs t [0..<nat t] c1 = Inr c"
    by (auto simp: dthp_intensity_def Let_def split: option.splits sum.splits)
  have l1: "length c1 = length state"
    using walk_Rt_returns(1) [OF w] by (simp add: fill_lm_def)
  have le: "nat t \<le> length obs" using intensity_returns(4) [OF assms(1)] .
  have "\<forall>ti\<in>set [0..<nat t]. obs ! ti = 0"
  proof
    fix ti assume "ti \<in> set [0..<nat t]"
    then have "ti < nat t" by simp
    then have "take (nat t) obs ! ti = obs ! ti" by simp
    moreover have "take (nat t) obs ! ti \<in> set (take (nat t) obs)"
      using \<open>ti < nat t\<close> le by (intro nth_mem) simp
    ultimately show "obs ! ti = 0" using assms(2) by auto
  qed
  with cv have "lm_I (c ! j) = lm_I (c1 ! j)"
    using assms(3) l1 by (intro convolve_zero_history [where tis = "[0..<nat t]"]) simp_all
  also have "\<dots> = lm_I (fill_lm state ! j)"
    using walk_Rt_returns(2) [OF w, of j] assms(3) by (simp add: fill_lm_def)
  also have "\<dots> = 0" using assms(3) by (simp add: fill_lm_def)
  finally show ?thesis .
qed

lemma dthp_returns:
  assumes "dthp_model state theta state_names theta_names obs t N rng = Inr df"
  shows "\<exists>c. dthp_intensity state theta theta_names obs t rng = Inr c \<and>
             poisson_accepts (map (poisson_lam N) c) \<and>
             length state_names = 3 \<and> columns df = state_names \<and>
             length (rows df) = length c \<and>
             (\<forall>j<length c. rows df ! j =
                \<lparr>lm_I = real_of_int (poisson_I rng j),
                 C_I = C_I (c ! j) + real_of_int (poisson_I rng j),
                 Rt = Rt (c ! j)\<rparr>)"
  using assms
  by (auto simp: dthp_model_def Let_def column_stack_def add_C_def split: sum.splits if_splits)

lemma dthp_draws_okD:
  assumes "dthp_draws_ok state theta theta_names obs t N rng"
    and "dthp_intensity state theta theta_names obs t rng = Inr c" and "j < length c"
  shows "poisson_outcome (poisson_lam N (c ! j)) (poisson_I rng j)"
  using assms by (simp add: dthp_draws_ok_def list_all_iff)

lemma poisson_acceptsD:
  "poisson_accepts (map (poisson_lam N) c) \<Longrightarrow> j < length c \<Longrightarrow> lam_ok (poisson_lam N (c ! j))"
  by (simp add: poisson_accepts_def list_all_length)

lemma lam_at_depletion:
  assumes "lam_ok (poisson_lam N p)" and "C_I p = N"
  shows "poisson_lam N p = Fin 0"
proof (cases "N = 0")
  case True
  with assms show ?thesis by (simp add: poisson_lam_def np_div_def lam_ok_def)
next
  case False
  with assms(2) show ?thesis by (simp add: poisson_lam_def np_div_def)
qed

lemma lam_at_zero_intensity:
  assumes "lam_ok (poisson_lam N p)" and "lm_I p = 0"
  shows "poisson_lam N p = Fin 0"
  using assms
  by (cases "np_mul (np_rsub 1 (np_div (C_I p) N)) (Rt p)") (simp_all add: poisson_lam_def lam_ok_def)

lemma lam_negative_rejected: "lam_negative l \<Longrightarrow> \<not> lam_ok l"
  by (cases l) (simp_all add: lam_negative_def lam_ok_def)

subsection \<open>The store\<close>

lemma frame_kept_refl: "frame_kept h h"
  by (simp add: frame_kept_def list_all_iff)

lemma frame_kept_trans: "frame_kept h h1 \<Longrightarrow> frame_kept h1 h2 \<Longrightarrow> frame_kept h h2"
  by (auto simp: frame_kept_def list_all_iff)

lemma frame_kept_alloc: "frame_kept h (snd (alloc xs h))"
  by (simp add: frame_kept_def alloc_def list_all_iff)

lemma frame_keptD: "frame_kept h h' \<Longrightarrow> a < top h \<Longrightarrow> arrays h' a = arrays h a"
  by (simp add: frame_kept_def list_all_iff)

lemma sir_st_frame:
  "frame_kept h (fst (stochastic_sir_model_st h y_ref theta theta_names dt rng))"
  by (simp add: stochastic_sir_model_st_def frame_kept_refl alloc_def frame_kept_def list_all_iff
      split: sum.splits)

lemma sir_st_fresh:
  "snd (stochastic_sir_model_st h y_ref theta theta_names dt rng) = Inr r \<Longrightarrow>
   r = top h \<and> top h < top (fst (stochastic_sir_model_st h y_ref theta theta_names dt rng)) \<and>
   stochastic_sir_model (arrays h y_ref) theta theta_names dt rng
     = Inr (arrays (fst (stochastic_sir_model_st h y_ref theta theta_names dt rng)) r)"
  by (auto simp: stochastic_sir_model_st_def alloc_def split: sum.splits)

lemma sirs_st_frame:
  "frame_kept h (fst (stochastic_sirs_model_st h y_ref theta theta_names dt rng))"
  by (simp add: stochastic_sirs_model_st_def frame_kept_refl alloc_def frame_kept_def list_all_iff
      split: sum.splits)

lemma sirs_st_fresh:
  "snd (stochastic_sirs_model_st h y_ref theta theta_names dt rng) = Inr r \<Longrightarrow>
   r = top h \<and> top h < top (fst (stochastic_sirs_model_st h y_ref theta theta_names dt rng)) \<and>
   stochastic_sirs_model (arrays h y_ref) theta theta_names dt rng
     = Inr (arrays (fst (stochastic_sirs_model_st h y_ref theta theta_names dt rng)) r)"
  by (auto simp: stochastic_sirs_model_st_def alloc_def split: sum.splits)

text \<open>The loop writes the copy only, and computes what the loop on values computes.\<close>

lemma convolve_st_sim:
  "convolve_st omega_I obs_ref t tis c h =
     (case convolve omega_I (series h obs_ref) t tis (arrays h c) of
        Inl e \<Rightarrow> (fst (convolve_st omega_I obs_ref t tis c h), Some e)
      | Inr c' \<Rightarrow> (write_array c c' h, None))"
proof (induction tis arbitrary: h)
  case Nil
  show ?case by (simp add: write_array_def)
next
  case (Cons ti tis)
  show ?case
  proof (cases "length (series h obs_ref) \<le> ti")
    case True
    then show ?thesis by simp
  next
    case False
    show ?thesis
    proof (cases "add_lm (map (\<lambda>k. series h obs_ref ! ti * k) (kernel_values omega_I t ti)) (arrays h c)")
      case (Inl e)
      with False show ?thesis by simp
    next
      case (Inr c1)
      have s: "series (write_array c c1 h) = series h" "arrays (write_array c c1 h) c = c1"
        by (simp_all add: write_array_def)
      have w: "write_array c c2 (write_array c c1 h) = write_array c c2 h" for c2
        by (simp add: write_array_def)
      from False Inr show ?thesis
        using Cons.IH [of "write_array c c1 h"]
        by (simp add: s w split: sum.splits)
    qed
  qed
qed

lemma frame_kept_write_above:
  "frame_kept h0 h \<Longrightarrow> top h0 \<le> a \<Longrightarrow> frame_kept h0 (write_array a xs h)"
  by (simp add: frame_kept_def write_array_def list_all_iff)

lemma frame_kept_alloc_above:
  "frame_kept h0 h \<Longrightarrow> frame_kept h0 (snd (alloc xs h))"
  by (auto simp: frame_kept_def alloc_def list_all_iff)

lemma convolve_st_frame:
  "frame_kept h0 h \<Longrightarrow> top h0 \<le> c \<Longrightarrow>
   frame_kept h0 (fst (convolve_st omega_I obs_ref t tis c h))"
proof (induction tis arbitrary: h)
  case Nil
  then show ?case by simp
next
  case (Cons ti tis)
  have "frame_kept h0 (fst (convolve_st omega_I obs_ref t tis c (write_array c c1 h)))" for c1
    using Cons.prems by (intro Cons.IH frame_kept_write_above)
  with Cons.prems(1) show ?case by (simp split: sum.splits)
qed

lemma dthp_st_frame:
  "frame_kept h (fst (dthp_model_st h state_ref theta state_names theta_names obs_ref t N rng))"
proof -
  define h1 where "h1 = snd (alloc (arrays h state_ref) h)"
  define c where "c = top h"
  have f1: "frame_kept h h1" unfolding h1_def by (rule frame_kept_alloc)
  have c: "top h \<le> c" by (simp add: c_def)
  have al: "alloc (arrays h state_ref) h = (c, h1)" by (simp add: h1_def c_def alloc_def)
  show ?thesis
  proof (cases "param_dict theta_names theta ''omega_I''")
    case None
    then show ?thesis by (simp add: dthp_model_st_def al f1)
  next
    case (Some omega_I)
    define h2 where "h2 = write_array c (fill_lm (arrays h1 c)) h1"
    have f2: "frame_kept h h2" unfolding h2_def using f1 c by (rule frame_kept_write_above)
    show ?thesis
    proof (cases "walk_Rt (param_get (param_dict theta_names theta) ''nu_beta'' [0.1]) rng (arrays h2 c)")
      case (Inl e)
      then show ?thesis by (simp add: dthp_model_st_def al Some Let_def h2_def [symmetric] f2)
    next
      case (Inr c')
      define h3 where "h3 = write_array c c' h2"
      have f3: "frame_kept h h3" unfolding h3_def using f2 c by (rule frame_kept_write_above)
      obtain h4 r4 where cv: "convolve_st omega_I obs_ref t [0..<nat t] c h3 = (h4, r4)"
        by (cases "convolve_st omega_I obs_ref t [0..<nat t] c h3")
      have f4: "frame_kept h h4"
        using convolve_st_frame [OF f3 c, of omega_I obs_ref t "[0..<nat t]"] by (simp add: cv)
      have f5: "frame_kept h (write_array c xs h4)" for xs
        using f4 c by (rule frame_kept_write_above)
      have f6: "frame_kept h (snd (alloc ys (write_array c xs h4)))" for xs ys
        using f5 by (rule frame_kept_alloc_above)
      show ?thesis
        using f4 f6
        by (simp add: dthp_model_st_def al Some Let_def h2_def [symmetric] Inr h3_def [symmetric] cv
            split_beta split: option.splits)
    qed
  qed
qed

lemma alloc_fst: "fst (alloc xs h) = top h"
  by (simp add: alloc_def)

lemma alloc_arrays_top: "a = top h \<Longrightarrow> arrays (snd (alloc xs h)) a = xs"
  by (simp add: alloc_def)

lemma alloc_top: "top (snd (alloc xs h)) = Suc (top h)"
  by (simp add: alloc_def)

lemma dthp_st_result:
  "(case dthp_model (arrays h state_ref) theta state_names theta_names (series h obs_ref) t N rng of
      Inl e \<Rightarrow> snd (dthp_model_st h state_ref theta state_names theta_names obs_ref t N rng) = Inl e
    | Inr df \<Rightarrow>
        snd (dthp_model_st h state_ref theta state_names theta_names obs_ref t N rng)
          = Inr (columns df, Suc (top h)) \<and>
        arrays (fst (dthp_model_st h state_ref theta state_names theta_names obs_ref t N rng))
          (Suc (top h)) = rows df \<and>
        top (fst (dthp_model_st h state_ref theta state_names theta_names obs_ref t N rng))
          = Suc (Suc (top h)))"
proof -
  define h1 where "h1 = snd (alloc (arrays h state_ref) h)"
  define c where "c = top h"
  have al: "alloc (arrays h state_ref) h = (c, h1)" by (simp add: h1_def c_def alloc_def)
  have h1: "arrays h1 c = arrays h state_ref" "series h1 = series h" "top h1 = Suc c"
    by (simp_all add: h1_def c_def alloc_def)
  show ?thesis
  proof (cases "param_dict theta_names theta ''omega_I''")
    case None
    then show ?thesis by (simp add: dthp_model_st_def dthp_model_def dthp_intensity_def al)
  next
    case (Some omega_I)
    define h2 where "h2 = write_array c (fill_lm (arrays h1 c)) h1"
    have h2: "arrays h2 c = fill_lm (arrays h state_ref)" "series h2 = series h" "top h2 = Suc c"
      by (simp_all add: h2_def write_array_def h1)
    show ?thesis
    proof (cases "walk_Rt (param_get (param_dict theta_names theta) ''nu_beta'' [0.1]) rng (arrays h2 c)")
      case (Inl e)
      then show ?thesis
        using Inl
        by (simp add: dthp_model_st_def dthp_model_def dthp_intensity_def al Some Let_def
            h2_def [symmetric] h2)
    next
      case (Inr c')
      define h3 where "h3 = write_array c c' h2"
      have h3: "arrays h3 c = c'" "series h3 = series h" "top h3 = Suc c"
        by (simp_all add: h3_def write_array_def h2)
      have walk: "walk_Rt (param_get (param_dict theta_names theta) ''nu_beta'' [0.1]) rng
                    (fill_lm (arrays h state_ref)) = Inr c'"
        using Inr by (simp add: h2)
      note sim = convolve_st_sim [of omega_I obs_ref t "[0..<nat t]" c h3, unfolded h3]
      show ?thesis
      proof (cases "convolve omega_I (series h obs_ref) t [0..<nat t] c'")
        case (Inl e)
        with sim have "convolve_st omega_I obs_ref t [0..<nat t] c h3
                         = (fst (convolve_st omega_I obs_ref t [0..<nat t] c h3), Some e)"
          by simp
        then have "snd (convolve_st omega_I obs_ref t [0..<nat t] c h3) = Some e"
          by (metis snd_conv)
        then show ?thesis
          using Inl walk
          by (simp add: dthp_model_st_def dthp_model_def dthp_intensity_def al Some Let_def
              h2_def [symmetric] h2 h3_def [symmetric] split_beta split: prod.splits)
      next
        case c3: (Inr c3)
        with sim have cv: "convolve_st omega_I obs_ref t [0..<nat t] c h3 = (write_array c c3 h3, None)"
          by simp
        have h4: "arrays (write_array c c3 h3) c = c3" "top (write_array c xs (write_array c c3 h3)) = Suc c" for xs
          by (simp_all add: write_array_def h3)
        have h5: "arrays (write_array c xs (write_array c c3 h3)) c = xs" for xs
          by (simp add: write_array_def)
        show ?thesis
          using c3 walk
          by (simp add: dthp_model_st_def dthp_model_def dthp_intensity_def al Some Let_def
              h2_def [symmetric] h2 h3_def [symmetric] cv h4 h5 split_beta alloc_fst
              alloc_arrays_top alloc_top c_def [symmetric])
      qed
    qed
  qed
qed

subsection \<open>Evaluation at concrete inputs\<close>

lemmas sampler_defs = binomial_accepts_def prob_ok_def binomial_outcome_def lam_ok_def
  poisson_accepts_def poisson_outcome_def lam_negative_def

lemmas sir_defs = stochastic_sir_model_def stochastic_sirs_model_def sir_draws_ok_def
  sirs_draws_ok_def param_dict_def param_get_def P_SI_def P_IR_def P_RS_def N_of_def np_div_def
  astype_int_def clamp_row_def sir_next_def sirs_next_def maximum0_def draws_of_def mu_def

lemmas dthp_defs = dthp_model_def dthp_intensity_def dthp_draws_ok_def param_dict_def
  param_get_def walk_Rt_def fill_lm_def add_lm_def broadcast_to_def kernel_values_def
  poisson_lam_def np_div_def add_C_def column_stack_def draws_of_def


lemma sir_example:
  "stochastic_sir_model [\<lparr>S_col = 990, I_col = 10, R_col = 0, NI_col = 0, B_col = 0.3\<rparr>]
     [0.1, 0] [''gamma'', ''nu_beta''] 1 (draws_of 3 1 0 1 0)
   = Inr [\<lparr>S_col = 987, I_col = 12, R_col = 1, NI_col = 3, B_col = 0.3\<rparr>]"
  by (simp add: sir_defs sampler_defs)

lemma sirs_example:
  "stochastic_sirs_model [\<lparr>S_col = 990, I_col = 10, R_col = 0, NI_col = 0, B_col = 0.3\<rparr>]
     [0.1, 0] [''gamma'', ''nu_beta''] 1 (draws_of 3 1 0 1 0)
   = Inr [\<lparr>S_col = 987 + 10 / 4160, I_col = 12 - 10 / 4160, R_col = 1, NI_col = 3, B_col = 0.3\<rparr>]"
  by (simp add: sir_defs sampler_defs)

lemma dthp_example:
  "dthp_model [\<lparr>lm_I = 7, C_I = 99, Rt = 1\<rparr>] [[0.5], [0]] [''lm_I'', ''C_I'', ''Rt''] [''omega_I'', ''nu_beta'']
     [50] 1 100 (draws_of 0 0 0 1 5)
   = Inr \<lparr>columns = [''lm_I'', ''C_I'', ''Rt''], rows = [\<lparr>lm_I = 5, C_I = 104, Rt = 1\<rparr>]\<rparr>"
  by (simp add: dthp_defs sampler_defs)

lemma dthp_example_draws:
  "dthp_draws_ok [\<lparr>lm_I = 7, C_I = 99, Rt = 1\<rparr>] [[0.5], [0]] [''omega_I'', ''nu_beta''] [50] 1 100 (draws_of 0 0 0 1 5)"
  by (simp add: dthp_defs sampler_defs)

lemma dthp_example_full:
  "dthp_model [\<lparr>lm_I = 7, C_I = 100, Rt = 1\<rparr>] [[0.5], [0]] [''lm_I'', ''C_I'', ''Rt''] [''omega_I'', ''nu_beta'']
     [50] 1 100 (draws_of 0 0 0 1 0)
   = Inr \<lparr>columns = [''lm_I'', ''C_I'', ''Rt''], rows = [\<lparr>lm_I = 0, C_I = 100, Rt = 1\<rparr>]\<rparr>"
  by (simp add: dthp_defs sampler_defs)

lemma dthp_example_full_draws:
  "dthp_draws_ok [\<lparr>lm_I = 7, C_I = 100, Rt = 1\<rparr>] [[0.5], [0]] [''omega_I'', ''nu_beta''] [50] 1 100 (draws_of 0 0 0 1 0)"
  by (simp add: dthp_defs sampler_defs)

lemma dthp_example_zero:
  "dthp_model [\<lparr>lm_I = 7, C_I = 99, Rt = 1\<rparr>] [[0.5], [0]] [''lm_I'', ''C_I'', ''Rt''] [''omega_I'', ''nu_beta'']
     [0, 0] 2 100 (draws_of 0 0 0 1 0)
   = Inr \<lparr>columns = [''lm_I'', ''C_I'', ''Rt''], rows = [\<lparr>lm_I = 0, C_I = 99, Rt = 1\<rparr>]\<rparr>"
  by (simp add: dthp_defs sampler_defs numeral_2_eq_2)

lemma dthp_example_zero_draws:
  "dthp_draws_ok [\<lparr>lm_I = 7, C_I = 99, Rt = 1\<rparr>] [[0.5], [0]] [''omega_I'', ''nu_beta''] [0, 0] 2 100 (draws_of 0 0 0 1 0)"
  by (simp add: dthp_defs sampler_defs numeral_2_eq_2)


subsection \<open>Float64 rounding\<close>

lemma floor_log2_eqI:
  assumes "0 < x" "2 powi k \<le> x" "x < 2 powi (k + 1)"
  shows "\<lfloor>log 2 x\<rfloor> = k"
proof -
  have "(2::real) powr real_of_int k = 2 powi k"
    by (simp add: powr_real_of_int')
  moreover have "(2::real) powr (real_of_int k + 1) = 2 powi (k + 1)"
    using powr_real_of_int' [of "2::real" "k + 1"] by simp
  ultimately show ?thesis
    using assms by (subst floor_log_eq_powr_iff) simp_all
qed

lemma round_even_int: "round_even (of_int n) = n"
  by (simp add: round_even_def)


lemma round_even_mono0: "0 \<le> y \<Longrightarrow> 0 \<le> round_even y" "y \<le> 0 \<Longrightarrow> round_even y \<le> 0"
  by (auto simp: round_even_def Let_def)


lemma binade:
  assumes "x \<noteq> 0"
  shows "2 powi \<lfloor>log 2 \<bar>x\<bar>\<rfloor> \<le> \<bar>x\<bar>" and "\<bar>x\<bar> < 2 powi (\<lfloor>log 2 \<bar>x\<bar>\<rfloor> + 1)"
proof -
  have pos: "0 < \<bar>x\<bar>" using assms by simp
  have "(2::real) powr real_of_int \<lfloor>log 2 \<bar>x\<bar>\<rfloor> \<le> \<bar>x\<bar> \<and>
        \<bar>x\<bar> < 2 powr (real_of_int \<lfloor>log 2 \<bar>x\<bar>\<rfloor> + 1)"
    using floor_log_eq_powr_iff [OF pos, of 2 "\<lfloor>log 2 \<bar>x\<bar>\<rfloor>"] by simp
  moreover have "(2::real) powr real_of_int k = 2 powi k" for k
    by (simp add: powr_real_of_int')
  moreover have "(2::real) powr (real_of_int k + 1) = 2 powi (k + 1)" for k
    using powr_real_of_int' [of "2::real" "k + 1"] by simp
  ultimately show "2 powi \<lfloor>log 2 \<bar>x\<bar>\<rfloor> \<le> \<bar>x\<bar>" and "\<bar>x\<bar> < 2 powi (\<lfloor>log 2 \<bar>x\<bar>\<rfloor> + 1)"
    by simp_all
qed

lemma ulp_exp_eqI:
  assumes "2 powi k \<le> \<bar>x\<bar>" "\<bar>x\<bar> < 2 powi (k + 1)"
  shows "ulp_exp x = max (k - 52) (- 1074)"
proof -
  have "0 < \<bar>x\<bar>" using assms(1) zero_less_power_int [of "2::real" k] by linarith
  then have "\<lfloor>log 2 \<bar>x\<bar>\<rfloor> = k" using assms by (rule floor_log2_eqI)
  then show ?thesis by (simp add: ulp_exp_def)
qed

lemma fl64_exactI:
  assumes "x = of_int m * 2 powi ulp_exp x" and "\<bar>x\<bar> < 2 ^ 1024"
  shows "fl64 x = Fin x"
proof (cases "x = 0")
  case True
  then show ?thesis by (simp add: fl64_def)
next
  case False
  have "x / 2 powi ulp_exp x = of_int m"
    using assms(1) by (metis nonzero_eq_divide_eq power_int_eq_0_iff zero_neq_numeral)
  then have "of_int (round_even (x / 2 powi ulp_exp x)) * 2 powi ulp_exp x = x"
    using assms(1) by (simp add: round_even_int)
  with False assms(2) show ?thesis by (simp add: fl64_def Let_def)
qed

lemma fl64_int:
  assumes "\<bar>n\<bar> \<le> 2 ^ 53"
  shows "fl64 (of_int n) = Fin (of_int n)"
proof (cases "n = 0")
  case True
  then show ?thesis by (simp add: fl64_def)
next
  case False
  define x :: real where "x = of_int n"
  define e where "e = \<lfloor>log 2 \<bar>x\<bar>\<rfloor>"
  have x0: "x \<noteq> 0" using False by (simp add: x_def)
  have x1: "1 \<le> \<bar>x\<bar>"
  proof -
    have "1 \<le> \<bar>n\<bar>" using False by simp
    then have "real_of_int 1 \<le> real_of_int \<bar>n\<bar>" by (simp only: of_int_le_iff)
    then show ?thesis by (simp add: x_def)
  qed
  have xb: "\<bar>x\<bar> \<le> 2 ^ 53"
  proof -
    have "real_of_int \<bar>n\<bar> \<le> real_of_int (2 ^ 53)" using assms by (simp only: of_int_le_iff)
    then show ?thesis by (simp add: x_def)
  qed
  from binade [OF x0] have lo: "2 powi e \<le> \<bar>x\<bar>" and hi: "\<bar>x\<bar> < 2 powi (e + 1)"
    by (simp_all add: e_def)
  have e0: "0 \<le> e"
  proof (rule ccontr)
    assume "\<not> 0 \<le> e"
    then have "e + 1 \<le> 0" by simp
    then have "(2::real) powi (e + 1) \<le> 2 powi 0" by (intro power_int_increasing) simp_all
    with hi x1 show False by simp
  qed
  have e53: "e \<le> 53"
  proof (rule ccontr)
    assume "\<not> e \<le> 53"
    then have "54 \<le> e" by simp
    then have "(2::real) powi 54 \<le> 2 powi e" by (intro power_int_increasing) simp_all
    with lo xb show False by simp
  qed
  have q: "ulp_exp x = e - 52" using e0 by (simp add: ulp_exp_def e_def)
  have "\<exists>m::int. x = of_int m * 2 powi (e - 52)"
  proof (cases "e \<le> 52")
    case True
    have "(2::real) powi (e - 52) * 2 ^ nat (52 - e) = 1"
      using True by (simp add: power_int_def power_mult_distrib [symmetric])
    then have "x = of_int (n * 2 ^ nat (52 - e)) * 2 powi (e - 52)"
      by (simp add: x_def mult.assoc mult.commute)
    then show ?thesis by blast
  next
    case False
    with e53 have e: "e = 53" by simp
    with lo xb have "\<bar>x\<bar> = 2 ^ 53" by simp
    then have "x = of_int (if 0 \<le> n then 2 ^ 52 else - (2 ^ 52)) * 2 powi (e - 52)"
      by (simp add: e x_def abs_if split: if_splits)
    then show ?thesis by blast
  qed
  then obtain m :: int where "x = of_int m * 2 powi ulp_exp x" by (auto simp: q)
  moreover have "\<bar>x\<bar> < 2 ^ 1024" using xb by (rule order_le_less_trans) simp
  ultimately have "fl64 x = Fin x" by (rule fl64_exactI)
  then show ?thesis by (simp add: x_def)
qed

lemma f_add_int:
  assumes "\<bar>a + b\<bar> \<le> 2 ^ 53"
  shows "f_add (Fin (of_int a)) (Fin (of_int b)) = Fin (of_int (a + b))"
  using fl64_int [OF assms] by simp

lemma f_sub_int:
  assumes "\<bar>a - b\<bar> \<le> 2 ^ 53"
  shows "f_sub (Fin (of_int a)) (Fin (of_int b)) = Fin (of_int (a - b))"
  using fl64_int [OF assms] by (simp add: f_sub_def)

lemma of_int64_small: "\<bar>k\<bar> \<le> 2 ^ 53 \<Longrightarrow> of_int64 k = Fin (of_int k)"
  by (simp add: of_int64_def fl64_int)

lemma astype_int_of_int: "astype_int (of_int n) = n"
  by (simp add: astype_int_def)


lemma fl64_eval:
  assumes "2 powi k \<le> \<bar>x\<bar>" and "\<bar>x\<bar> < 2 powi (k + 1)"
    and "q = max (k - 52) (- 1074)"
    and "round_even (x / 2 powi q) = m"
    and "\<bar>real_of_int m * 2 powi q\<bar> < 2 ^ 1024"
  shows "fl64 x = Fin (of_int m * 2 powi q)"
proof -
  have "0 < (2::real) powi k" by simp
  with assms(1) have "0 < \<bar>x\<bar>" by linarith
  then have "x \<noteq> 0" by simp
  moreover have "ulp_exp x = q" using ulp_exp_eqI [OF assms(1,2)] assms(3) by simp
  ultimately show ?thesis using assms(4,5) by (simp add: fl64_def Let_def)
qed

lemma fl64_2_53_plus_1: "fl64 (2 ^ 53 + 1) = Fin (2 ^ 53)"
proof -
  have "fl64 (2 ^ 53 + 1) = Fin (of_int (2 ^ 52) * 2 powi 1)"
    by (rule fl64_eval [where k = 53]) (simp_all add: round_even_def)
  then show ?thesis by simp
qed

lemma sir_overflow_example:
  "sir_counts_f64 \<lparr>S_col = 1, I_col = 2 ^ 53, R_col = 0, NI_col = 0, B_col = 1 / 4\<rparr> 1 0
     = \<lparr>S_next = Fin 0, I_next = Fin (2 ^ 53), R_next = Fin 0\<rparr>"
proof -
  have a: "of_int64 1 = Fin 1" "of_int64 0 = Fin 0"
    using of_int64_small [of 1] of_int64_small [of 0] by simp_all
  have b: "fl64 (2 ^ 53) = Fin (2 ^ 53)" "fl64 0 = Fin 0"
    using fl64_int [of "2 ^ 53"] fl64_int [of 0] by simp_all
  have I1: "f_add (Fin (2 ^ 53)) (Fin 1) = Fin (2 ^ 53)"
    using fl64_2_53_plus_1 by simp
  have I2: "f_sub (Fin (2 ^ 53)) (Fin 0) = Fin (2 ^ 53)"
    using b by (simp add: f_sub_def)
  have S: "f_sub (Fin 1) (Fin 1) = Fin 0" "f_add (Fin 0) (Fin 0) = Fin 0"
    using b by (simp_all add: f_sub_def)
  show ?thesis
    unfolding sir_counts_f64_def comp.simps a I1 I2 S by simp
qed

lemma round_even_ge_floor: "\<lfloor>y\<rfloor> \<le> round_even y"
  by (simp add: round_even_def Let_def)

lemma fl64_nonpos:
  assumes "x \<le> 0"
  shows "fl64 x = NInf \<or> (\<exists>r\<le>0. fl64 x = Fin r)"
proof (cases "x = 0")
  case True
  then show ?thesis by (simp add: fl64_def)
next
  case False
  have "x / 2 powi ulp_exp x \<le> 0" using assms by (simp add: divide_nonpos_pos)
  then have "round_even (x / 2 powi ulp_exp x) \<le> 0" by (rule round_even_mono0(2))
  then have "real_of_int (round_even (x / 2 powi ulp_exp x)) * 2 powi ulp_exp x \<le> 0"
    by (simp add: mult_nonpos_nonneg)
  with False assms show ?thesis by (auto simp: fl64_def Let_def)
qed

lemma fl64_ge_1:
  assumes "1 \<le> x"
  shows "fl64 x = PInf \<or> (\<exists>r\<ge>1. fl64 x = Fin r)"
proof -
  define e where "e = \<lfloor>log 2 \<bar>x\<bar>\<rfloor>"
  have x0: "x \<noteq> 0" "0 < x" using assms by simp_all
  from binade [OF x0(1)] have lo: "2 powi e \<le> x" and hi: "x < 2 powi (e + 1)"
    using x0(2) by (simp_all add: e_def)
  have e0: "0 \<le> e"
  proof (rule ccontr)
    assume "\<not> 0 \<le> e"
    then have "e + 1 \<le> 0" by simp
    then have "(2::real) powi (e + 1) \<le> 2 powi 0" by (intro power_int_increasing) simp_all
    with hi assms show False by simp
  qed
  have q: "ulp_exp x = e - 52" using e0 by (simp add: ulp_exp_def e_def)
  have split: "(2::real) ^ 52 * 2 powi (e - 52) = 2 powi e"
    using power_int_add [of "2::real" 52 "e - 52"] by simp
  have "2 ^ 52 \<le> x / 2 powi (e - 52)"
    using lo split by (simp add: pos_le_divide_eq)
  then have "(2 ^ 52 :: int) \<le> \<lfloor>x / 2 powi (e - 52)\<rfloor>" by (simp add: le_floor_iff)
  then have "2 ^ 52 \<le> round_even (x / 2 powi (e - 52))"
    using round_even_ge_floor [of "x / 2 powi (e - 52)"] by linarith
  then have "real_of_int (2 ^ 52) \<le> real_of_int (round_even (x / 2 powi (e - 52)))"
    by (simp only: of_int_le_iff)
  then have m: "(2::real) ^ 52 \<le> real_of_int (round_even (x / 2 powi (e - 52)))"
    by simp
  have A: "(2::real) ^ 52 * 2 powi (e - 52)
             \<le> real_of_int (round_even (x / 2 powi (e - 52))) * 2 powi (e - 52)"
    using m by (rule mult_right_mono) simp
  have B: "(1::real) \<le> 2 powi e"
    using e0 power_int_increasing [of 0 e "2::real"] by simp
  have "1 \<le> real_of_int (round_even (x / 2 powi (e - 52))) * 2 powi (e - 52)"
    using A B split by linarith
  then show ?thesis using x0 by (auto simp: fl64_def Let_def q)
qed

lemma nonpos_float_fl64: "x \<le> 0 \<Longrightarrow> nonpos_float (fl64 x)"
  using fl64_nonpos [of x] by (auto simp: nonpos_float_def)

lemma nonpos_float_mul:
  assumes "nonpos_float a" and "0 < y"
  shows "nonpos_float (f_mul a (Fin y))"
proof (cases a)
  case (Fin r)
  with assms have "r * y \<le> 0" by (simp add: nonpos_float_def mult_nonpos_nonneg)
  then show ?thesis using Fin by (simp add: nonpos_float_fl64)
qed (use assms in \<open>simp_all add: nonpos_float_def\<close>)

lemma depletion_nonpos:
  assumes "0 < N" and "N < C"
  shows "nonpos_float (f_sub (Fin 1) (f_div (Fin C) (Fin N)))"
proof -
  have "1 \<le> C / N" using assms by simp
  from fl64_ge_1 [OF this] show ?thesis
  proof
    assume "fl64 (C / N) = PInf"
    then show ?thesis using assms by (simp add: f_sub_def nonpos_float_def)
  next
    assume "\<exists>r\<ge>1. fl64 (C / N) = Fin r"
    then obtain r where r: "1 \<le> r" "fl64 (C / N) = Fin r" by blast
    then have "nonpos_float (fl64 (1 + - r))" by (intro nonpos_float_fl64) simp
    then show ?thesis using assms r by (simp add: f_sub_def)
  qed
qed

lemma lam_f64_beyond_N:
  assumes "0 < N" and "N < C_I p" and "0 < Rt p" and "0 < lm_I p"
  shows "lam_negative (poisson_lam_f64 N p) \<or> poisson_lam_f64 N p = Fin 0"
proof -
  have "nonpos_float (poisson_lam_f64 N p)"
    unfolding poisson_lam_f64_def
    by (intro nonpos_float_mul depletion_nonpos assms)
  then show ?thesis
    by (cases "poisson_lam_f64 N p") (auto simp: nonpos_float_def lam_negative_def)
qed

lemma fl64_pow2:
  assumes "- 1074 \<le> k" and "k \<le> 1023"
  shows "fl64 (2 powi k) = Fin (2 powi k)" and "fl64 (- (2 powi k)) = Fin (- (2 powi k))"
proof -
  define q where "q = max (k - 52) (- 1074)"
  have q: "ulp_exp (2 powi k) = q" "ulp_exp (- (2 powi k)) = q"
    using ulp_exp_eqI [of k "2 powi k"] ulp_exp_eqI [of k "- (2 powi k)"]
    by (simp_all add: q_def power_int_strict_increasing)
  have kq: "0 \<le> k - q" using assms by (simp add: q_def)
  have "(2::real) powi k = 2 powi (k - q) * 2 powi q"
    using power_int_add [of "2::real" "k - q" q] by simp
  also have "(2::real) powi (k - q) = of_int (2 ^ nat (k - q))"
    using kq by (simp add: power_int_def)
  finally have rep: "(2::real) powi k = of_int (2 ^ nat (k - q)) * 2 powi q" .
  have "(2::real) powi k \<le> 2 powi 1023" using assms by (intro power_int_increasing) simp_all
  then have small: "\<bar>(2::real) powi k\<bar> < 2 ^ 1024" "\<bar>- ((2::real) powi k)\<bar> < 2 ^ 1024"
    by simp_all
  have "(2::real) powi k = of_int (2 ^ nat (k - q)) * 2 powi ulp_exp (2 powi k)"
    unfolding q by (rule rep)
  then show "fl64 (2 powi k) = Fin (2 powi k)"
    using small(1) by (rule fl64_exactI)
  have "- ((2::real) powi k) = of_int (- (2 ^ nat (k - q))) * 2 powi q"
    using rep by simp
  then have "- ((2::real) powi k) = of_int (- (2 ^ nat (k - q))) * 2 powi ulp_exp (- (2 powi k))"
    unfolding q .
  then show "fl64 (- (2 powi k)) = Fin (- (2 powi k))"
    using small(2) by (rule fl64_exactI)
qed

lemma round_even_small: "- (1 / 2) < y \<Longrightarrow> y < 1 / 2 \<Longrightarrow> round_even y = 0"
proof (cases "0 \<le> y")
  case True
  assume "y < 1 / 2"
  with True have "\<lfloor>y\<rfloor> = 0" by (simp add: floor_eq_iff)
  with \<open>y < 1 / 2\<close> show ?thesis by (simp add: round_even_def Let_def)
next
  case False
  assume "- (1 / 2) < y"
  with False have "\<lfloor>y\<rfloor> = - 1" by (simp add: floor_eq_iff)
  with \<open>- (1 / 2) < y\<close> show ?thesis by (simp add: round_even_def Let_def)
qed

lemma fl64_underflow: "fl64 (- (2 powi - 1200)) = Fin 0"
proof -
  have eq: "- ((2::real) powi - 1200) / 2 powi - 1074 = - (2 powi - 126)"
    using power_int_add [of "2::real" "- 126" "- 1074"] by simp
  have "(2::real) powi - 126 \<le> 2 powi - 2" by (intro power_int_increasing) simp_all
  then have "(2::real) powi - 126 < 1 / 2" by simp
  moreover have "0 < (2::real) powi - 126" by simp
  ultimately have "round_even (- ((2::real) powi - 126)) = 0"
    by (intro round_even_small) linarith+
  then have r: "round_even (- (2 powi - 1200) / 2 powi - 1074) = 0"
    unfolding eq .
  have lo: "(2::real) powi - 1200 \<le> \<bar>- (2 powi - 1200)\<bar>" by simp
  have hi: "\<bar>- ((2::real) powi - 1200)\<bar> < 2 powi (- 1200 + 1)"
    by (simp add: power_int_strict_increasing)
  have "fl64 (- (2 powi - 1200)) = Fin (of_int 0 * 2 powi - 1074)"
    using lo hi _ r by (rule fl64_eval) simp_all
  then show ?thesis by simp
qed

lemma fl64_small_ints:
  "fl64 2 = Fin 2" "fl64 (- 1) = Fin (- 1)" "fl64 (- 25) = Fin (- 25)" "fl64 0 = Fin 0"
  using fl64_int [of 2] fl64_int [of "- 1"] fl64_int [of "- 25"] fl64_int [of 0] by simp_all

lemma underflow_example:
  "poisson_lam_f64 1 \<lparr>lm_I = 2 powi - 600, C_I = 2, Rt = 2 powi - 600\<rparr> = Fin 0"
proof -
  have d: "f_div (Fin 2) (Fin 1) = Fin 2"
    by (simp add: fl64_small_ints)
  have s: "f_sub (Fin 1) (Fin 2) = Fin (- 1)"
    by (simp add: f_sub_def fl64_small_ints)
  have "f_mul (Fin (- 1)) (Fin x) = fl64 (- x)" for x
    by simp
  then have m1: "f_mul (Fin (- 1)) (Fin (2 powi - 600)) = Fin (- (2 powi - 600))"
    using fl64_pow2(2) [of "- 600"] by (simp only:)
  have "- ((2::real) powi - 600) * 2 powi - 600 = - (2 powi - 1200)"
    using power_int_add [of "2::real" "- 600" "- 600"] by simp
  then have m2: "f_mul (Fin (- (2 powi - 600))) (Fin (2 powi - 600)) = Fin 0"
    using fl64_underflow by (simp only: f_mul.simps)
  show ?thesis
    unfolding poisson_lam_f64_def hawkes.select_convs d s m1 m2 ..
qed

lemma underflow_returns:
  "dthp_draw_f64 1 [\<lparr>lm_I = 2 powi - 600, C_I = 2, Rt = 2 powi - 600\<rparr>]
     [''lm_I'', ''C_I'', ''Rt''] (draws_of 0 0 0 1 0)
   = Inr ([''lm_I'', ''C_I'', ''Rt''], [(Fin 0, Fin 2, Fin (2 powi - 600))])"
  using underflow_example [simplified]
  by (simp add: dthp_draw_f64_def poisson_accepts_def lam_ok_def of_int64_def fl64_small_ints
      draws_of_def)

lemma negative_mean_example:
  "poisson_lam_f64 100 \<lparr>lm_I = 25, C_I = 200, Rt = 1\<rparr> = Fin (- 25)"
  by (simp add: poisson_lam_f64_def f_sub_def fl64_small_ints)


subsection \<open>Rounding errors of the SIRS update\<close>








section \<open>The properties of the kernels\<close>

text \<open>
  C1. Every column of the state that a kernel returns is at least 0, whatever the
  draws. The SIR and SIRS kernels clamp every column at 0 before they return, so this
  holds for each of their inputs. The Hawkes kernel does not clamp: its \<^verbatim>\<open>lm_I\<close> is
  a Poisson draw, its \<^verbatim>\<open>C_I\<close> is the input \<^verbatim>\<open>C_I\<close> plus that draw, and its \<^verbatim>\<open>Rt\<close> is
  the input \<^verbatim>\<open>Rt\<close> times an exponential, so its columns are at least 0 when those of
  the input are.
\<close>

theorem outputs_nonnegative:
  "(stochastic_sir_model y theta theta_names dt rng = Inr y_next \<longrightarrow>
      list_all comp_nonneg y_next) \<and>
   (stochastic_sirs_model y theta theta_names dt rng = Inr y_next' \<longrightarrow>
      list_all comp_nonneg y_next') \<and>
   (dthp_model state theta' state_names theta_names' obs t N rng = Inr df \<and>
    dthp_draws_ok state theta' theta_names' obs t N rng \<and> list_all hawkes_nonneg state \<longrightarrow>
      list_all hawkes_nonneg (rows df))"
proof (intro conjI impI)
  assume "stochastic_sir_model y theta theta_names dt rng = Inr y_next"
  from sir_returns [OF this] show "list_all comp_nonneg y_next"
    by (auto simp: list_all_iff comp_nonneg_def clamp_row_nonneg)
next
  assume "stochastic_sirs_model y theta theta_names dt rng = Inr y_next'"
  from sirs_returns [OF this] show "list_all comp_nonneg y_next'"
    by (auto simp: list_all_iff comp_nonneg_def clamp_row_nonneg)
next
  assume a: "dthp_model state theta' state_names theta_names' obs t N rng = Inr df \<and>
    dthp_draws_ok state theta' theta_names' obs t N rng \<and> list_all hawkes_nonneg state"
  then have ret: "dthp_model state theta' state_names theta_names' obs t N rng = Inr df"
    and ok: "dthp_draws_ok state theta' theta_names' obs t N rng"
    and valid: "list_all hawkes_nonneg state" by simp_all
  from dthp_returns [OF ret] obtain c where
    c: "dthp_intensity state theta' theta_names' obs t rng = Inr c" and
    len: "length (rows df) = length c" and
    row: "\<forall>j<length c. rows df ! j =
            \<lparr>lm_I = real_of_int (poisson_I rng j),
             C_I = C_I (c ! j) + real_of_int (poisson_I rng j), Rt = Rt (c ! j)\<rparr>"
    by blast
  have lc: "length c = length state" using intensity_returns(1) [OF c] .
  have "hawkes_nonneg (rows df ! j)" if j: "j < length state" for j
  proof -
    have jc: "j < length c" using j lc by simp
    have v: "0 \<le> C_I (state ! j)" "0 \<le> Rt (state ! j)"
      using valid j by (simp_all add: list_all_length hawkes_nonneg_def)
    have k: "0 \<le> poisson_I rng j"
      using dthp_draws_okD [OF ok c jc] by (simp add: poisson_outcome_def)
    have CI: "C_I (c ! j) = C_I (state ! j)" using intensity_returns(2) [OF c j] .
    from intensity_returns(3) [OF c j] obtain x where "Rt (c ! j) = Rt (state ! j) * exp x" ..
    then have R: "0 \<le> Rt (c ! j)" using v(2) by simp
    show ?thesis using row jc k v(1) CI R by (simp add: hawkes_nonneg_def)
  qed
  then show "list_all hawkes_nonneg (rows df)"
    by (simp add: list_all_length len lc)
qed

theorem outputs_nonnegative_witness:
  "stochastic_sir_model [\<lparr>S_col = 990, I_col = 10, R_col = 0, NI_col = 0, B_col = 0.3\<rparr>]
     [0.1, 0] [''gamma'', ''nu_beta''] 1 (draws_of 3 1 0 1 0)
   = Inr [\<lparr>S_col = 987, I_col = 12, R_col = 1, NI_col = 3, B_col = 0.3\<rparr>] \<and>
   list_all comp_nonneg [\<lparr>S_col = 987, I_col = 12, R_col = 1, NI_col = 3, B_col = 0.3\<rparr>] \<and>
   stochastic_sirs_model [\<lparr>S_col = 990, I_col = 10, R_col = 0, NI_col = 0, B_col = 0.3\<rparr>]
     [0.1, 0] [''gamma'', ''nu_beta''] 1 (draws_of 3 1 0 1 0)
   = Inr [\<lparr>S_col = 987 + 10 / 4160, I_col = 12 - 10 / 4160, R_col = 1, NI_col = 3, B_col = 0.3\<rparr>] \<and>
   list_all comp_nonneg
     [\<lparr>S_col = 987 + 10 / 4160, I_col = 12 - 10 / 4160, R_col = 1, NI_col = 3, B_col = 0.3\<rparr>] \<and>
   dthp_model [\<lparr>lm_I = 7, C_I = 99, Rt = 1\<rparr>] [[0.5], [0]] [''lm_I'', ''C_I'', ''Rt''] [''omega_I'', ''nu_beta'']
     [50] 1 100 (draws_of 0 0 0 1 5)
   = Inr \<lparr>columns = [''lm_I'', ''C_I'', ''Rt''], rows = [\<lparr>lm_I = 5, C_I = 104, Rt = 1\<rparr>]\<rparr> \<and>
   dthp_draws_ok [\<lparr>lm_I = 7, C_I = 99, Rt = 1\<rparr>] [[0.5], [0]] [''omega_I'', ''nu_beta''] [50] 1 100
     (draws_of 0 0 0 1 5) \<and>
   list_all hawkes_nonneg [\<lparr>lm_I = 7, C_I = 99, Rt = 1\<rparr>] \<and>
   list_all hawkes_nonneg [\<lparr>lm_I = 5, C_I = 104, Rt = 1\<rparr>]"
proof -
  have valid: "list_all hawkes_nonneg [\<lparr>lm_I = 7, C_I = 99, Rt = 1\<rparr>]"
    by (simp add: hawkes_nonneg_def)
  from outputs_nonnegative
    [where y = "[\<lparr>S_col = 990, I_col = 10, R_col = 0, NI_col = 0, B_col = 0.3\<rparr>]"
       and theta = "[0.1, 0]" and theta_names = "[''gamma'', ''nu_beta'']" and dt = 1
       and rng = "draws_of 3 1 0 1 0"
       and y_next = "[\<lparr>S_col = 987, I_col = 12, R_col = 1, NI_col = 3, B_col = 0.3\<rparr>]"
       and y_next' = "[\<lparr>S_col = 987 + 10 / 4160, I_col = 12 - 10 / 4160, R_col = 1, NI_col = 3, B_col = 0.3\<rparr>]"]
  have "list_all comp_nonneg [\<lparr>S_col = 987, I_col = 12, R_col = 1, NI_col = 3, B_col = 0.3\<rparr>]"
    and "list_all comp_nonneg
     [\<lparr>S_col = 987 + 10 / 4160, I_col = 12 - 10 / 4160, R_col = 1, NI_col = 3, B_col = 0.3\<rparr>]"
    using sir_example sirs_example by simp_all
  moreover from outputs_nonnegative
    [where state = "[\<lparr>lm_I = 7, C_I = 99, Rt = 1\<rparr>]" and theta' = "[[0.5], [0]]"
       and state_names = "[''lm_I'', ''C_I'', ''Rt'']" and theta_names' = "[''omega_I'', ''nu_beta'']"
       and obs = "[50]" and t = 1 and N = 100 and rng = "draws_of 0 0 0 1 5"
       and df = "\<lparr>columns = [''lm_I'', ''C_I'', ''Rt''], rows = [\<lparr>lm_I = 5, C_I = 104, Rt = 1\<rparr>]\<rparr>"]
  have "list_all hawkes_nonneg [\<lparr>lm_I = 5, C_I = 104, Rt = 1\<rparr>]"
    using dthp_example dthp_example_draws valid by simp
  ultimately show ?thesis
    using sir_example sirs_example dthp_example dthp_example_draws valid by simp
qed

text \<open>
  C2. The claim: for every input of the SIR kernel with \<^verbatim>\<open>S, I, R\<close> at least 0 and
  every outcome of the draws, the columns \<^verbatim>\<open>S, I, R\<close> of the result sum to exactly
  \<^verbatim>\<open>S + I + R\<close>. The kernel adds and subtracts in float64. A particle with \<^verbatim>\<open>S = 1\<close>
  and \<^verbatim>\<open>I = 2 ^ 53\<close> whose susceptible individual is infected comes back with \<^verbatim>\<open>S = 0\<close>
  and \<^verbatim>\<open>I = 2 ^ 53\<close>: the sum \<^verbatim>\<open>2 ^ 53 + 1\<close> is no float64 and is rounded to \<^verbatim>\<open>2 ^ 53\<close>, so
  one individual is lost. (The draws are possible: with \<^verbatim>\<open>B = 1/4\<close>, \<^verbatim>\<open>gamma = 1/8\<close> and
  \<^verbatim>\<open>dt = 1\<close> both probabilities lie strictly between 0 and 1.)
\<close>

theorem sir_rounding_loses_an_individual:
  "sir_draws_ok [\<lparr>S_col = 1, I_col = 2 ^ 53, R_col = 0, NI_col = 0, B_col = 1 / 4\<rparr>] [1 / 8, 0] [''gamma'', ''nu_beta''] 1 (draws_of 1 0 0 1 0) \<and>
   sir_counts_f64 \<lparr>S_col = 1, I_col = 2 ^ 53, R_col = 0, NI_col = 0, B_col = 1 / 4\<rparr> 1 0
     = \<lparr>S_next = Fin 0, I_next = Fin (2 ^ 53), R_next = Fin 0\<rparr> \<and>
   (0 :: real) + 2 ^ 53 + 0
     \<noteq> S_col \<lparr>S_col = 1, I_col = 2 ^ 53, R_col = 0, NI_col = 0, B_col = 1 / 4\<rparr>
       + I_col \<lparr>S_col = 1, I_col = 2 ^ 53, R_col = 0, NI_col = 0, B_col = 1 / 4\<rparr>
       + R_col \<lparr>S_col = 1, I_col = 2 ^ 53, R_col = 0, NI_col = 0, B_col = 1 / 4\<rparr>"
proof -
  have "sir_draws_ok [\<lparr>S_col = 1, I_col = 2 ^ 53, R_col = 0, NI_col = 0, B_col = 1 / 4\<rparr>] [1 / 8, 0] [''gamma'', ''nu_beta''] 1 (draws_of 1 0 0 1 0)"
    by (simp add: sir_defs sampler_defs)
  then show ?thesis
    using sir_overflow_example by simp
qed

text \<open>
  C2, amended. For every input of the SIR kernel whose \<^verbatim>\<open>S, I, R\<close> are whole numbers,
  at least 0, with \<^verbatim>\<open>S + I + R\<close> at most \<^verbatim>\<open>2 ^ 53\<close>, and every outcome of the binomial
  draws, the columns \<^verbatim>\<open>S, I, R\<close> that the kernel returns are \<^verbatim>\<open>S - Y_SI\<close>,
  \<^verbatim>\<open>I + Y_SI - Y_IR\<close> and \<^verbatim>\<open>R + Y_IR\<close> without rounding or clamping, and they sum to
  exactly \<^verbatim>\<open>S + I + R\<close>, for all values of \<^verbatim>\<open>gamma\<close> and \<^verbatim>\<open>nu_beta\<close>.
\<close>

theorem sir_conserves_integer_population:
  assumes int: "S_col p = of_int s" "I_col p = of_int i" "R_col p = of_int r"
    and nonneg: "0 \<le> s" "0 \<le> i" "0 \<le> r"
    and bound: "s + i + r \<le> 2 ^ 53"
    and draws: "binomial_outcome (astype_int (S_col p)) p_si ysi"
               "binomial_outcome (astype_int (I_col p)) p_ir yir"
  shows "sir_counts_f64 p ysi yir =
           \<lparr>S_next = Fin (of_int (s - ysi)), I_next = Fin (of_int (i + ysi - yir)),
            R_next = Fin (of_int (r + yir))\<rparr> \<and>
         real_of_int (s - ysi) + real_of_int (i + ysi - yir) + real_of_int (r + yir)
           = S_col p + I_col p + R_col p"
proof -
  from draws have y: "0 \<le> ysi" "ysi \<le> s" "0 \<le> yir" "yir \<le> i"
    by (simp_all add: binomial_outcome_def int astype_int_of_int)
  have k: "of_int64 ysi = Fin (of_int ysi)" "of_int64 yir = Fin (of_int yir)"
    using y nonneg bound by (simp_all add: of_int64_small)
  have S: "f_sub (Fin (of_int s)) (Fin (of_int ysi)) = Fin (of_int (s - ysi))"
    using y nonneg bound by (intro f_sub_int) simp
  have I1: "f_add (Fin (of_int i)) (Fin (of_int ysi)) = Fin (of_int (i + ysi))"
    using y nonneg bound by (intro f_add_int) simp
  have I2: "f_sub (Fin (of_int (i + ysi))) (Fin (of_int yir)) = Fin (of_int (i + ysi - yir))"
    using y nonneg bound by (intro f_sub_int) simp
  have R: "f_add (Fin (of_int r)) (Fin (of_int yir)) = Fin (of_int (r + yir))"
    using y nonneg bound by (intro f_add_int) simp
  have clamp: "f_maximum0 (Fin (of_int (s - ysi))) = Fin (of_int (s - ysi))"
    "f_maximum0 (Fin (of_int (i + ysi - yir))) = Fin (of_int (i + ysi - yir))"
    "f_maximum0 (Fin (of_int (r + yir))) = Fin (of_int (r + yir))"
    using y nonneg by (simp_all add: max_def)
  have "sir_counts_f64 p ysi yir =
           \<lparr>S_next = Fin (of_int (s - ysi)), I_next = Fin (of_int (i + ysi - yir)),
            R_next = Fin (of_int (r + yir))\<rparr>"
    unfolding sir_counts_f64_def int k S I1 I2 R clamp ..
  moreover have "real_of_int (s - ysi) + real_of_int (i + ysi - yir) + real_of_int (r + yir)
           = S_col p + I_col p + R_col p"
    by (simp add: int)
  ultimately show ?thesis by (rule conjI)
qed

theorem sir_conserves_integer_population_witness:
  "binomial_outcome (astype_int (S_col \<lparr>S_col = 990, I_col = 10, R_col = 0, NI_col = 0, B_col = 1 / 4\<rparr>)) (Fin (1 / 2)) 3 \<and>
   binomial_outcome (astype_int (I_col \<lparr>S_col = 990, I_col = 10, R_col = 0, NI_col = 0, B_col = 1 / 4\<rparr>)) (Fin (1 / 2)) 1 \<and>
   sir_counts_f64 \<lparr>S_col = 990, I_col = 10, R_col = 0, NI_col = 0, B_col = 1 / 4\<rparr> 3 1
     = \<lparr>S_next = Fin 987, I_next = Fin 12, R_next = Fin 1\<rparr> \<and>
   (987 :: real) + 12 + 1
     = S_col \<lparr>S_col = 990, I_col = 10, R_col = 0, NI_col = 0, B_col = 1 / 4\<rparr>
       + I_col \<lparr>S_col = 990, I_col = 10, R_col = 0, NI_col = 0, B_col = 1 / 4\<rparr>
       + R_col \<lparr>S_col = 990, I_col = 10, R_col = 0, NI_col = 0, B_col = 1 / 4\<rparr>"
proof -
  have d: "binomial_outcome (astype_int (S_col \<lparr>S_col = 990, I_col = 10, R_col = 0, NI_col = 0, B_col = 1 / 4\<rparr>)) (Fin (1 / 2)) 3"
    "binomial_outcome (astype_int (I_col \<lparr>S_col = 990, I_col = 10, R_col = 0, NI_col = 0, B_col = 1 / 4\<rparr>)) (Fin (1 / 2)) 1"
    by (simp_all add: binomial_outcome_def astype_int_def)
  show ?thesis
    using sir_conserves_integer_population
            [where p = "\<lparr>S_col = 990, I_col = 10, R_col = 0, NI_col = 0, B_col = 1 / 4\<rparr>"
               and s = 990 and i = 10 and r = 0 and ysi = 3 and yir = 1
               and p_si = "Fin (1 / 2)" and p_ir = "Fin (1 / 2)"] d
    by simp
qed

text \<open>
  C3. A particle of the Hawkes kernel whose \<^verbatim>\<open>C_I\<close> equals \<^verbatim>\<open>N\<close> gets the Poisson mean
  0: in every call that returns, its \<^verbatim>\<open>lm_I\<close> is 0 and its \<^verbatim>\<open>C_I\<close> is the one it came
  with. (With \<^verbatim>\<open>N = 0\<close> the mean is not a number and the call raises.)
\<close>

theorem dthp_depletion_stops_infections:
  assumes ret: "dthp_model state theta state_names theta_names obs t N rng = Inr df"
    and ok: "dthp_draws_ok state theta theta_names obs t N rng"
    and j: "j < length state"
    and full: "C_I (state ! j) = N"
  shows "(\<exists>c. dthp_intensity state theta theta_names obs t rng = Inr c \<and>
              poisson_lam N (c ! j) = Fin 0) \<and>
         lm_I (rows df ! j) = 0 \<and> C_I (rows df ! j) = C_I (state ! j)"
proof -
  from dthp_returns [OF ret] obtain c where
    c: "dthp_intensity state theta theta_names obs t rng = Inr c" and
    acc: "poisson_accepts (map (poisson_lam N) c)" and
    row: "\<forall>j<length c. rows df ! j =
            \<lparr>lm_I = real_of_int (poisson_I rng j),
             C_I = C_I (c ! j) + real_of_int (poisson_I rng j), Rt = Rt (c ! j)\<rparr>"
    by blast
  have len: "length c = length state" using intensity_returns(1) [OF c] .
  have jc: "j < length c" using j len by simp
  have CI: "C_I (c ! j) = C_I (state ! j)" using intensity_returns(2) [OF c j] .
  have lam: "poisson_lam N (c ! j) = Fin 0"
    using poisson_acceptsD [OF acc jc] CI full by (intro lam_at_depletion) simp_all
  have "poisson_I rng j = 0"
    using dthp_draws_okD [OF ok c jc] lam by (simp add: poisson_outcome_def)
  with row jc CI c lam show ?thesis by simp
qed

theorem dthp_depletion_stops_infections_witness:
  "dthp_model [\<lparr>lm_I = 7, C_I = 100, Rt = 1\<rparr>] [[0.5], [0]] [''lm_I'', ''C_I'', ''Rt'']
     [''omega_I'', ''nu_beta''] [50] 1 100 (draws_of 0 0 0 1 0)
   = Inr \<lparr>columns = [''lm_I'', ''C_I'', ''Rt''], rows = [\<lparr>lm_I = 0, C_I = 100, Rt = 1\<rparr>]\<rparr> \<and>
   dthp_draws_ok [\<lparr>lm_I = 7, C_I = 100, Rt = 1\<rparr>] [[0.5], [0]] [''omega_I'', ''nu_beta''] [50] 1 100
     (draws_of 0 0 0 1 0) \<and>
   C_I \<lparr>lm_I = 7, C_I = 100, Rt = 1\<rparr> = 100 \<and>
   lm_I (rows \<lparr>columns = [''lm_I'', ''C_I'', ''Rt''],
                rows = [\<lparr>lm_I = 0, C_I = 100, Rt = 1\<rparr>]\<rparr> ! 0) = 0 \<and>
   C_I (rows \<lparr>columns = [''lm_I'', ''C_I'', ''Rt''],
               rows = [\<lparr>lm_I = 0, C_I = 100, Rt = 1\<rparr>]\<rparr> ! 0)
     = C_I \<lparr>lm_I = 7, C_I = 100, Rt = 1\<rparr>"
  using dthp_depletion_stops_infections [OF dthp_example_full dthp_example_full_draws, of 0]
    dthp_example_full dthp_example_full_draws
  by simp

text \<open>
  C4. When every entry of the observed history \<^verbatim>\<open>obs[0..t-1]\<close> is 0, the loop leaves
  the intensity of every particle at 0, whatever \<^verbatim>\<open>omega_I\<close> is; in every call that
  returns, the Poisson draw is then 0 and \<^verbatim>\<open>C_I\<close> is the one the particle came with.
\<close>

theorem dthp_zero_history:
  assumes ret: "dthp_model state theta state_names theta_names obs t N rng = Inr df"
    and ok: "dthp_draws_ok state theta theta_names obs t N rng"
    and zero: "set (take (nat t) obs) \<subseteq> {0}"
    and j: "j < length state"
  shows "(\<exists>c. dthp_intensity state theta theta_names obs t rng = Inr c \<and> lm_I (c ! j) = 0) \<and>
         lm_I (rows df ! j) = 0 \<and> C_I (rows df ! j) = C_I (state ! j)"
proof -
  from dthp_returns [OF ret] obtain c where
    c: "dthp_intensity state theta theta_names obs t rng = Inr c" and
    acc: "poisson_accepts (map (poisson_lam N) c)" and
    row: "\<forall>j<length c. rows df ! j =
            \<lparr>lm_I = real_of_int (poisson_I rng j),
             C_I = C_I (c ! j) + real_of_int (poisson_I rng j), Rt = Rt (c ! j)\<rparr>"
    by blast
  have len: "length c = length state" using intensity_returns(1) [OF c] .
  have jc: "j < length c" using j len by simp
  have CI: "C_I (c ! j) = C_I (state ! j)" using intensity_returns(2) [OF c j] .
  have lm: "lm_I (c ! j) = 0" using intensity_zero_history [OF c zero j] .
  have lam: "poisson_lam N (c ! j) = Fin 0"
    using poisson_acceptsD [OF acc jc] lm by (rule lam_at_zero_intensity)
  have "poisson_I rng j = 0"
    using dthp_draws_okD [OF ok c jc] lam by (simp add: poisson_outcome_def)
  with row jc CI c lm show ?thesis by simp
qed

theorem dthp_zero_history_witness:
  "dthp_model [\<lparr>lm_I = 7, C_I = 99, Rt = 1\<rparr>] [[0.5], [0]] [''lm_I'', ''C_I'', ''Rt'']
     [''omega_I'', ''nu_beta''] [0, 0] 2 100 (draws_of 0 0 0 1 0)
   = Inr \<lparr>columns = [''lm_I'', ''C_I'', ''Rt''], rows = [\<lparr>lm_I = 0, C_I = 99, Rt = 1\<rparr>]\<rparr> \<and>
   dthp_draws_ok [\<lparr>lm_I = 7, C_I = 99, Rt = 1\<rparr>] [[0.5], [0]] [''omega_I'', ''nu_beta''] [0, 0] 2 100
     (draws_of 0 0 0 1 0) \<and>
   set (take (nat 2) [0, 0 :: real]) \<subseteq> {0} \<and>
   lm_I (rows \<lparr>columns = [''lm_I'', ''C_I'', ''Rt''],
                rows = [\<lparr>lm_I = 0, C_I = 99, Rt = 1\<rparr>]\<rparr> ! 0) = 0 \<and>
   C_I (rows \<lparr>columns = [''lm_I'', ''C_I'', ''Rt''],
               rows = [\<lparr>lm_I = 0, C_I = 99, Rt = 1\<rparr>]\<rparr> ! 0)
     = C_I \<lparr>lm_I = 7, C_I = 99, Rt = 1\<rparr>"
proof -
  have zero: "set (take (nat 2) [0, 0 :: real]) \<subseteq> {0}" by simp
  show ?thesis
    using dthp_zero_history [OF dthp_example_zero dthp_example_zero_draws zero, of 0]
      dthp_example_zero dthp_example_zero_draws
    by simp
qed



text \<open>
  C6. A kernel whose required parameter name is not in \<^verbatim>\<open>theta_names\<close> raises
  \<^verbatim>\<open>KeyError\<close> at the lookup, before it draws or computes anything: \<^verbatim>\<open>gamma\<close> for the
  SIR kernel, \<^verbatim>\<open>gamma\<close> or \<^verbatim>\<open>nu_beta\<close> for the SIRS kernel, \<^verbatim>\<open>omega_I\<close> for the Hawkes
  kernel.
\<close>

theorem missing_parameter_raises:
  "(''gamma'' \<notin> set theta_names \<longrightarrow>
      stochastic_sir_model y theta theta_names dt rng = Inl (KeyError ''gamma'')) \<and>
   (''gamma'' \<notin> set theta_names \<or> ''nu_beta'' \<notin> set theta_names \<longrightarrow>
      stochastic_sirs_model y theta theta_names dt rng
        \<in> {Inl (KeyError ''gamma''), Inl (KeyError ''nu_beta'')}) \<and>
   (''omega_I'' \<notin> set theta_names \<longrightarrow>
      dthp_model state theta' state_names theta_names obs t N rng = Inl (KeyError ''omega_I''))"
proof (intro conjI impI)
  assume "''gamma'' \<notin> set theta_names"
  then show "stochastic_sir_model y theta theta_names dt rng = Inl (KeyError ''gamma'')"
    by (simp add: sir_no_gamma param_dict_absent)
next
  assume "''gamma'' \<notin> set theta_names \<or> ''nu_beta'' \<notin> set theta_names"
  then show "stochastic_sirs_model y theta theta_names dt rng
        \<in> {Inl (KeyError ''gamma''), Inl (KeyError ''nu_beta'')}"
  proof
    assume "''gamma'' \<notin> set theta_names"
    then show ?thesis by (simp add: sirs_no_gamma param_dict_absent)
  next
    assume "''nu_beta'' \<notin> set theta_names"
    then show ?thesis by (simp add: sirs_no_nu_beta param_dict_absent)
  qed
next
  assume "''omega_I'' \<notin> set theta_names"
  then show "dthp_model state theta' state_names theta_names obs t N rng = Inl (KeyError ''omega_I'')"
    by (simp add: dthp_no_omega param_dict_absent)
qed

theorem missing_parameter_raises_witness:
  "''gamma'' \<notin> set [''nu_beta''] \<and> ''omega_I'' \<notin> set [''nu_beta''] \<and>
   ''nu_beta'' \<notin> set [''gamma''] \<and>
   stochastic_sir_model [\<lparr>S_col = 990, I_col = 10, R_col = 0, NI_col = 0, B_col = 0.3\<rparr>]
     [0] [''nu_beta''] 1 (draws_of 3 1 0 1 0) = Inl (KeyError ''gamma'') \<and>
   stochastic_sirs_model [\<lparr>S_col = 990, I_col = 10, R_col = 0, NI_col = 0, B_col = 0.3\<rparr>]
     [0.1] [''gamma''] 1 (draws_of 3 1 0 1 0) = Inl (KeyError ''nu_beta'') \<and>
   dthp_model [\<lparr>lm_I = 7, C_I = 99, Rt = 1\<rparr>] [[0]] [''lm_I'', ''C_I'', ''Rt'']
     [''nu_beta''] [50] 1 100 (draws_of 3 1 0 1 0) = Inl (KeyError ''omega_I'')"
proof -
  have sirs: "stochastic_sirs_model [\<lparr>S_col = 990, I_col = 10, R_col = 0, NI_col = 0, B_col = 0.3\<rparr>]
     [0.1] [''gamma''] 1 (draws_of 3 1 0 1 0) \<noteq> Inl (KeyError ''gamma'')"
    by (simp add: sir_defs sampler_defs)
  show ?thesis
    using missing_parameter_raises
            [where theta_names = "[''nu_beta'']" and theta = "[0]" and theta' = "[[0]]"
               and y = "[\<lparr>S_col = 990, I_col = 10, R_col = 0, NI_col = 0, B_col = 0.3\<rparr>]"
               and dt = 1 and rng = "draws_of 3 1 0 1 0"
               and state = "[\<lparr>lm_I = 7, C_I = 99, Rt = 1\<rparr>]"
               and state_names = "[''lm_I'', ''C_I'', ''Rt'']" and obs = "[50]" and t = 1
               and N = 100]
          missing_parameter_raises
            [where theta_names = "[''gamma'']" and theta = "[0.1]"
               and y = "[\<lparr>S_col = 990, I_col = 10, R_col = 0, NI_col = 0, B_col = 0.3\<rparr>]"
               and dt = 1 and rng = "draws_of 3 1 0 1 0"]
          sirs
    by (simp add: dthp_model_def dthp_intensity_def param_dict_def)
qed




text \<open>
  C8. No kernel changes an array of its caller. On the store: every array that was
  allocated before the call, the input ensemble among them, and every series, the
  observed data among them, holds after the call what it held before, also when the
  call raises; the address of the result is one that was not in use before the call.
\<close>

theorem kernels_leave_inputs_unchanged:
  "(let (h', res) = stochastic_sir_model_st h y_ref theta theta_names dt rng
    in frame_kept h h' \<and> (y_ref < top h \<longrightarrow> arrays h' y_ref = arrays h y_ref) \<and>
       (\<forall>r. res = Inr r \<longrightarrow> top h \<le> r \<and> r < top h')) \<and>
   (let (h', res) = stochastic_sirs_model_st h y_ref theta theta_names dt rng
    in frame_kept h h' \<and> (y_ref < top h \<longrightarrow> arrays h' y_ref = arrays h y_ref) \<and>
       (\<forall>r. res = Inr r \<longrightarrow> top h \<le> r \<and> r < top h')) \<and>
   (let (h', res) = dthp_model_st hh state_ref theta' state_names theta_names' obs_ref t N rng
    in frame_kept hh h' \<and> (state_ref < top hh \<longrightarrow> arrays h' state_ref = arrays hh state_ref) \<and>
       series h' obs_ref = series hh obs_ref \<and>
       (\<forall>cols r. res = Inr (cols, r) \<longrightarrow> top hh \<le> r \<and> r < top h'))"
proof (intro conjI)
  show "let (h', res) = stochastic_sir_model_st h y_ref theta theta_names dt rng
    in frame_kept h h' \<and> (y_ref < top h \<longrightarrow> arrays h' y_ref = arrays h y_ref) \<and>
       (\<forall>r. res = Inr r \<longrightarrow> top h \<le> r \<and> r < top h')"
    using sir_st_frame [of h y_ref theta theta_names dt rng]
      sir_st_fresh [of h y_ref theta theta_names dt rng]
    by (auto simp: split_beta dest: frame_keptD)
  show "let (h', res) = stochastic_sirs_model_st h y_ref theta theta_names dt rng
    in frame_kept h h' \<and> (y_ref < top h \<longrightarrow> arrays h' y_ref = arrays h y_ref) \<and>
       (\<forall>r. res = Inr r \<longrightarrow> top h \<le> r \<and> r < top h')"
    using sirs_st_frame [of h y_ref theta theta_names dt rng]
      sirs_st_fresh [of h y_ref theta theta_names dt rng]
    by (auto simp: split_beta dest: frame_keptD)
  have fr: "frame_kept hh (fst (dthp_model_st hh state_ref theta' state_names theta_names' obs_ref t N rng))"
    by (rule dthp_st_frame)
  have res: "snd (dthp_model_st hh state_ref theta' state_names theta_names' obs_ref t N rng) = Inr (cols, r)
      \<Longrightarrow> r = Suc (top hh)" for cols r
    using dthp_st_result [of hh state_ref theta' state_names theta_names' obs_ref t N rng]
    by (auto split: sum.splits)
  have tp: "snd (dthp_model_st hh state_ref theta' state_names theta_names' obs_ref t N rng) = Inr (cols, r)
      \<Longrightarrow> top (fst (dthp_model_st hh state_ref theta' state_names theta_names' obs_ref t N rng)) = Suc (Suc (top hh))" for cols r
    using dthp_st_result [of hh state_ref theta' state_names theta_names' obs_ref t N rng]
    by (auto split: sum.splits)
  show "let (h', res) = dthp_model_st hh state_ref theta' state_names theta_names' obs_ref t N rng
    in frame_kept hh h' \<and> (state_ref < top hh \<longrightarrow> arrays h' state_ref = arrays hh state_ref) \<and>
       series h' obs_ref = series hh obs_ref \<and>
       (\<forall>cols r. res = Inr (cols, r) \<longrightarrow> top hh \<le> r \<and> r < top h')"
    using fr frame_keptD [OF fr, of state_ref] res tp
    by (auto simp: split_beta frame_kept_def simp del: list_all_iff)
qed

theorem kernels_leave_inputs_unchanged_witness:
  "(0 :: nat) < top \<lparr>arrays = (\<lambda>a. [\<lparr>S_col = 990, I_col = 10, R_col = 0, NI_col = 0, B_col = 0.3\<rparr>]), series = (\<lambda>a. []), top = 1\<rparr> \<and>
   arrays (fst (stochastic_sir_model_st
                  \<lparr>arrays = (\<lambda>a. [\<lparr>S_col = 990, I_col = 10, R_col = 0, NI_col = 0, B_col = 0.3\<rparr>]), series = (\<lambda>a. []), top = 1\<rparr>
                  0 [0.1, 0] [''gamma'', ''nu_beta''] 1 (draws_of 3 1 0 1 0))) 0
     = [\<lparr>S_col = 990, I_col = 10, R_col = 0, NI_col = 0, B_col = 0.3\<rparr>] \<and>
   snd (stochastic_sir_model_st
          \<lparr>arrays = (\<lambda>a. [\<lparr>S_col = 990, I_col = 10, R_col = 0, NI_col = 0, B_col = 0.3\<rparr>]), series = (\<lambda>a. []), top = 1\<rparr>
          0 [0.1, 0] [''gamma'', ''nu_beta''] 1 (draws_of 3 1 0 1 0)) = Inr 1 \<and>
   arrays (fst (stochastic_sirs_model_st
                  \<lparr>arrays = (\<lambda>a. [\<lparr>S_col = 990, I_col = 10, R_col = 0, NI_col = 0, B_col = 0.3\<rparr>]), series = (\<lambda>a. []), top = 1\<rparr>
                  0 [0.1, 0] [''gamma'', ''nu_beta''] 1 (draws_of 3 1 0 1 0))) 0
     = [\<lparr>S_col = 990, I_col = 10, R_col = 0, NI_col = 0, B_col = 0.3\<rparr>] \<and>
   snd (stochastic_sirs_model_st
          \<lparr>arrays = (\<lambda>a. [\<lparr>S_col = 990, I_col = 10, R_col = 0, NI_col = 0, B_col = 0.3\<rparr>]), series = (\<lambda>a. []), top = 1\<rparr>
          0 [0.1, 0] [''gamma'', ''nu_beta''] 1 (draws_of 3 1 0 1 0)) = Inr 1 \<and>
   (0 :: nat) < top \<lparr>arrays = (\<lambda>a. [\<lparr>lm_I = 7, C_I = 99, Rt = 1\<rparr>]), series = (\<lambda>a. [50]),
                      top = 1\<rparr> \<and>
   arrays (fst (dthp_model_st
                  \<lparr>arrays = (\<lambda>a. [\<lparr>lm_I = 7, C_I = 99, Rt = 1\<rparr>]), series = (\<lambda>a. [50]),
                     top = 1\<rparr>
                  0 [[0.5], [0]] [''lm_I'', ''C_I'', ''Rt''] [''omega_I'', ''nu_beta''] 0 1 100
                  (draws_of 0 0 0 1 5))) 0
     = [\<lparr>lm_I = 7, C_I = 99, Rt = 1\<rparr>] \<and>
   series (fst (dthp_model_st
                  \<lparr>arrays = (\<lambda>a. [\<lparr>lm_I = 7, C_I = 99, Rt = 1\<rparr>]), series = (\<lambda>a. [50]),
                     top = 1\<rparr>
                  0 [[0.5], [0]] [''lm_I'', ''C_I'', ''Rt''] [''omega_I'', ''nu_beta''] 0 1 100
                  (draws_of 0 0 0 1 5))) 0
     = [50] \<and>
   snd (dthp_model_st
          \<lparr>arrays = (\<lambda>a. [\<lparr>lm_I = 7, C_I = 99, Rt = 1\<rparr>]), series = (\<lambda>a. [50]), top = 1\<rparr>
          0 [[0.5], [0]] [''lm_I'', ''C_I'', ''Rt''] [''omega_I'', ''nu_beta''] 0 1 100 (draws_of 0 0 0 1 5))
     = Inr ([''lm_I'', ''C_I'', ''Rt''], 2)"
proof -
  have sir: "snd (stochastic_sir_model_st
          \<lparr>arrays = (\<lambda>a. [\<lparr>S_col = 990, I_col = 10, R_col = 0, NI_col = 0, B_col = 0.3\<rparr>]), series = (\<lambda>a. []), top = 1\<rparr>
          0 [0.1, 0] [''gamma'', ''nu_beta''] 1 (draws_of 3 1 0 1 0)) = Inr 1"
    by (simp add: stochastic_sir_model_st_def sir_example alloc_def)
  have sirs: "snd (stochastic_sirs_model_st
          \<lparr>arrays = (\<lambda>a. [\<lparr>S_col = 990, I_col = 10, R_col = 0, NI_col = 0, B_col = 0.3\<rparr>]), series = (\<lambda>a. []), top = 1\<rparr>
          0 [0.1, 0] [''gamma'', ''nu_beta''] 1 (draws_of 3 1 0 1 0)) = Inr 1"
    by (simp add: stochastic_sirs_model_st_def sirs_example alloc_def)
  have dthp: "snd (dthp_model_st
          \<lparr>arrays = (\<lambda>a. [\<lparr>lm_I = 7, C_I = 99, Rt = 1\<rparr>]), series = (\<lambda>a. [50]), top = 1\<rparr>
          0 [[0.5], [0]] [''lm_I'', ''C_I'', ''Rt''] [''omega_I'', ''nu_beta''] 0 1 100 (draws_of 0 0 0 1 5))
     = Inr ([''lm_I'', ''C_I'', ''Rt''], 2)"
    using dthp_st_result
      [of "\<lparr>arrays = (\<lambda>a. [\<lparr>lm_I = 7, C_I = 99, Rt = 1\<rparr>]), series = (\<lambda>a. [50]), top = 1\<rparr>"
          0 "[[0.5], [0]]" "[''lm_I'', ''C_I'', ''Rt'']" "[''omega_I'', ''nu_beta'']" 0 1 100 "draws_of 0 0 0 1 5",
       simplified store.simps dthp_example sum.case dataframe.simps]
    by simp
  show ?thesis
    using kernels_leave_inputs_unchanged
      [where h = "\<lparr>arrays = (\<lambda>a. [\<lparr>S_col = 990, I_col = 10, R_col = 0, NI_col = 0, B_col = 0.3\<rparr>]), series = (\<lambda>a. []), top = 1\<rparr>"
         and y_ref = 0 and theta = "[0.1, 0]" and theta_names = "[''gamma'', ''nu_beta'']"
         and dt = 1 and rng = "draws_of 3 1 0 1 0"]
      kernels_leave_inputs_unchanged
      [where hh = "\<lparr>arrays = (\<lambda>a. [\<lparr>lm_I = 7, C_I = 99, Rt = 1\<rparr>]), series = (\<lambda>a. [50]),
                     top = 1\<rparr>"
         and state_ref = 0 and theta' = "[[0.5], [0]]"
         and state_names = "[''lm_I'', ''C_I'', ''Rt'']" and theta_names' = "[''omega_I'', ''nu_beta'']"
         and obs_ref = 0 and t = 1 and N = 100 and rng = "draws_of 0 0 0 1 5"]
      sir sirs dthp
    by (simp add: split_beta)
qed

text \<open>
  C9. The claim: a call in which \<^verbatim>\<open>theta\<close> and \<^verbatim>\<open>theta_names\<close> differ in length
  raises a shape-mismatch error. No kernel compares the two lengths:
  \<^verbatim>\<open>dict(zip(theta_names, theta))\<close> pairs the names with the values up to the shorter
  of the two and drops the rest. With three values and the two names \<^verbatim>\<open>gamma\<close> and \<^verbatim>\<open>nu_beta\<close> the
  SIR kernel returns, and so does the Hawkes kernel with three rows and the two names
  \<^verbatim>\<open>omega_I\<close> and \<^verbatim>\<open>nu_beta\<close>.
\<close>

theorem length_mismatch_returns:
  "length [0.1, 0, 0.7 :: real] \<noteq> length [''gamma'', ''nu_beta''] \<and>
   stochastic_sir_model [\<lparr>S_col = 990, I_col = 10, R_col = 0, NI_col = 0, B_col = 0.3\<rparr>]
     [0.1, 0, 0.7] [''gamma'', ''nu_beta''] 1 (draws_of 3 1 0 1 0)
   = Inr [\<lparr>S_col = 987, I_col = 12, R_col = 1, NI_col = 3, B_col = 0.3\<rparr>] \<and>
   length [[0.5], [0], [0.3 :: real]] \<noteq> length [''omega_I'', ''nu_beta''] \<and>
   dthp_model [\<lparr>lm_I = 7, C_I = 99, Rt = 1\<rparr>] [[0.5], [0], [0.3]] [''lm_I'', ''C_I'', ''Rt'']
     [''omega_I'', ''nu_beta''] [50] 1 100 (draws_of 0 0 0 1 5)
   = Inr \<lparr>columns = [''lm_I'', ''C_I'', ''Rt''], rows = [\<lparr>lm_I = 5, C_I = 104, Rt = 1\<rparr>]\<rparr>"
  by (simp add: sir_defs dthp_defs sampler_defs)

text \<open>
  C9, amended. A call in which \<^verbatim>\<open>theta\<close> and \<^verbatim>\<open>theta_names\<close> differ in length raises
  no error for that: each kernel does exactly what it does on the two lists cut to
  the length of the shorter one (so it raises \<^verbatim>\<open>KeyError\<close> when a required name is not
  among the names that are left, and returns the same state otherwise).
\<close>

theorem length_mismatch_truncates:
  "stochastic_sir_model y theta theta_names dt rng
     = stochastic_sir_model y (take (min (length theta_names) (length theta)) theta)
         (take (min (length theta_names) (length theta)) theta_names) dt rng \<and>
   stochastic_sirs_model y theta theta_names dt rng
     = stochastic_sirs_model y (take (min (length theta_names) (length theta)) theta)
         (take (min (length theta_names) (length theta)) theta_names) dt rng \<and>
   dthp_model state theta' state_names theta_names obs t N rng
     = dthp_model state (take (min (length theta_names) (length theta')) theta') state_names
         (take (min (length theta_names) (length theta')) theta_names) obs t N rng"
  by (simp only: stochastic_sir_model_def stochastic_sirs_model_def dthp_model_def
      dthp_intensity_def param_dict_take)

theorem length_mismatch_truncates_witness:
  "stochastic_sir_model [\<lparr>S_col = 990, I_col = 10, R_col = 0, NI_col = 0, B_col = 0.3\<rparr>]
     [0.1, 0, 0.7] [''gamma'', ''nu_beta''] 1 (draws_of 3 1 0 1 0)
   = stochastic_sir_model [\<lparr>S_col = 990, I_col = 10, R_col = 0, NI_col = 0, B_col = 0.3\<rparr>]
       [0.1, 0] [''gamma'', ''nu_beta''] 1 (draws_of 3 1 0 1 0) \<and>
   stochastic_sirs_model [\<lparr>S_col = 990, I_col = 10, R_col = 0, NI_col = 0, B_col = 0.3\<rparr>]
     [0.1, 0, 0.7] [''gamma'', ''nu_beta''] 1 (draws_of 3 1 0 1 0)
   = stochastic_sirs_model [\<lparr>S_col = 990, I_col = 10, R_col = 0, NI_col = 0, B_col = 0.3\<rparr>]
       [0.1, 0] [''gamma'', ''nu_beta''] 1 (draws_of 3 1 0 1 0) \<and>
   dthp_model [\<lparr>lm_I = 7, C_I = 99, Rt = 1\<rparr>] [[0.5], [0], [0.3]] [''lm_I'', ''C_I'', ''Rt'']
     [''omega_I'', ''nu_beta''] [50] 1 100 (draws_of 0 0 0 1 5)
   = dthp_model [\<lparr>lm_I = 7, C_I = 99, Rt = 1\<rparr>] [[0.5], [0]] [''lm_I'', ''C_I'', ''Rt'']
       [''omega_I'', ''nu_beta''] [50] 1 100 (draws_of 0 0 0 1 5)"
  using length_mismatch_truncates
    [where theta = "[0.1, 0, 0.7]" and theta_names = "[''gamma'', ''nu_beta'']"
       and y = "[\<lparr>S_col = 990, I_col = 10, R_col = 0, NI_col = 0, B_col = 0.3\<rparr>]" and dt = 1 and rng = "draws_of 3 1 0 1 0"]
    length_mismatch_truncates
    [where theta' = "[[0.5], [0], [0.3]]" and theta_names = "[''omega_I'', ''nu_beta'']"
       and state = "[\<lparr>lm_I = 7, C_I = 99, Rt = 1\<rparr>]"
       and state_names = "[''lm_I'', ''C_I'', ''Rt'']" and obs = "[50]" and t = 1 and N = 100
       and rng = "draws_of 0 0 0 1 5"]
  by simp

text \<open>
  C10. The claim: a call of the Hawkes kernel in which the Poisson mean
  \<^verbatim>\<open>(1 - C_I / N) * Rt * lm_I\<close> of some particle is strictly negative raises an error
  and returns no state, and the mean is negative whenever \<^verbatim>\<open>C_I\<close> exceeds \<^verbatim>\<open>N\<close> while
  \<^verbatim>\<open>Rt\<close> and the accumulated intensity are positive. The sampler is given the float64
  value of the product, and a product of small factors underflows: with \<^verbatim>\<open>N = 1\<close>,
  \<^verbatim>\<open>C_I = 2\<close>, \<^verbatim>\<open>Rt = 2 ** -600\<close> and the intensity \<^verbatim>\<open>2 ** -600\<close> the exact product is
  \<^verbatim>\<open>- 2 ** -1200\<close>, the float64 product is zero, the sampler accepts it, draws 0, and the
  call returns. (The copy holds these values at line 179 for the state row
  \<^verbatim>\<open>[0, 2, 2 ** -600]\<close> with \<^verbatim>\<open>omega_I = 2 ** -600\<close>, \<^verbatim>\<open>nu_beta = 0\<close>, \<^verbatim>\<open>obs = [1]\<close> and
  \<^verbatim>\<open>t = 1\<close>.)
\<close>

theorem dthp_underflowing_mean_returns:
  "(0 :: real) < 1 \<and> 1 < C_I \<lparr>lm_I = 2 powi - 600, C_I = 2, Rt = 2 powi - 600\<rparr> \<and>
   0 < Rt \<lparr>lm_I = 2 powi - 600, C_I = 2, Rt = 2 powi - 600\<rparr> \<and>
   0 < lm_I \<lparr>lm_I = 2 powi - 600, C_I = 2, Rt = 2 powi - 600\<rparr> \<and>
   (1 - C_I \<lparr>lm_I = 2 powi - 600, C_I = 2, Rt = 2 powi - 600\<rparr> / 1)
     * Rt \<lparr>lm_I = 2 powi - 600, C_I = 2, Rt = 2 powi - 600\<rparr>
     * lm_I \<lparr>lm_I = 2 powi - 600, C_I = 2, Rt = 2 powi - 600\<rparr> < 0 \<and>
   poisson_lam_f64 1 \<lparr>lm_I = 2 powi - 600, C_I = 2, Rt = 2 powi - 600\<rparr> = Fin 0 \<and>
   poisson_outcome (Fin 0) 0 \<and>
   dthp_draw_f64 1 [\<lparr>lm_I = 2 powi - 600, C_I = 2, Rt = 2 powi - 600\<rparr>]
     [''lm_I'', ''C_I'', ''Rt''] (draws_of 0 0 0 1 0)
   = Inr ([''lm_I'', ''C_I'', ''Rt''], [(Fin 0, Fin 2, Fin (2 powi - 600))])"
proof -
  have "(1 - C_I \<lparr>lm_I = 2 powi - 600, C_I = 2, Rt = 2 powi - 600\<rparr> / 1)
     * Rt \<lparr>lm_I = 2 powi - 600, C_I = 2, Rt = 2 powi - 600\<rparr>
     * lm_I \<lparr>lm_I = 2 powi - 600, C_I = 2, Rt = 2 powi - 600\<rparr> < 0"
    by (simp add: mult_less_0_iff)
  then show ?thesis
    using underflow_example underflow_returns by (simp add: poisson_outcome_def)
qed

text \<open>
  C10, amended. A call of the Hawkes kernel in which the float64 value of the Poisson
  mean of some particle is strictly negative (or minus infinity) raises \<^verbatim>\<open>ValueError\<close>
  at the sampler and returns no state; the mean is not clamped. When \<^verbatim>\<open>C_I\<close> exceeds a
  positive \<^verbatim>\<open>N\<close> while \<^verbatim>\<open>Rt\<close> and the accumulated intensity are positive, the float64
  mean is negative or, by underflow, zero.
\<close>

theorem dthp_negative_float_mean_raises:
  "(j < length c \<and> lam_negative (poisson_lam_f64 N (c ! j))
      \<longrightarrow> dthp_draw_f64 N c state_names rng = Inl ValueError) \<and>
   (0 < N \<and> N < C_I p \<and> 0 < Rt p \<and> 0 < lm_I p
      \<longrightarrow> lam_negative (poisson_lam_f64 N p) \<or> poisson_lam_f64 N p = Fin 0)"
proof (intro conjI impI)
  assume a: "j < length c \<and> lam_negative (poisson_lam_f64 N (c ! j))"
  then have "\<not> lam_ok (poisson_lam_f64 N (c ! j))" by (simp add: lam_negative_rejected)
  with a have "\<not> poisson_accepts (map (poisson_lam_f64 N) c)"
    by (auto simp: poisson_accepts_def list_all_length)
  then show "dthp_draw_f64 N c state_names rng = Inl ValueError"
    by (simp add: dthp_draw_f64_def)
next
  assume "0 < N \<and> N < C_I p \<and> 0 < Rt p \<and> 0 < lm_I p"
  then show "lam_negative (poisson_lam_f64 N p) \<or> poisson_lam_f64 N p = Fin 0"
    by (simp add: lam_f64_beyond_N)
qed

theorem dthp_negative_float_mean_raises_witness:
  "(0 :: nat) < length [\<lparr>lm_I = 25, C_I = 200, Rt = 1\<rparr>] \<and>
   lam_negative (poisson_lam_f64 100 ([\<lparr>lm_I = 25, C_I = 200, Rt = 1\<rparr>] ! 0)) \<and>
   dthp_draw_f64 100 [\<lparr>lm_I = 25, C_I = 200, Rt = 1\<rparr>] [''lm_I'', ''C_I'', ''Rt'']
     (draws_of 0 0 0 1 5) = Inl ValueError \<and>
   (0 :: real) < 100 \<and> 100 < C_I \<lparr>lm_I = 25, C_I = 200, Rt = 1\<rparr> \<and>
   0 < Rt \<lparr>lm_I = 25, C_I = 200, Rt = 1\<rparr> \<and> 0 < lm_I \<lparr>lm_I = 25, C_I = 200, Rt = 1\<rparr> \<and>
   poisson_lam_f64 100 \<lparr>lm_I = 25, C_I = 200, Rt = 1\<rparr> = Fin (- 25)"
  using dthp_negative_float_mean_raises
    [where c = "[\<lparr>lm_I = 25, C_I = 200, Rt = 1\<rparr>]" and j = 0 and N = 100
       and p = "\<lparr>lm_I = 25, C_I = 200, Rt = 1\<rparr>"
       and state_names = "[''lm_I'', ''C_I'', ''Rt'']" and rng = "draws_of 0 0 0 1 5"]
    negative_mean_example
  by (simp add: lam_negative_def)


end
